theory Spec2Isabelle
  imports Complex_Main "HOL-Library.AList"
begin

section \<open>Data model of \<^verbatim>\<open>uberpy.core.base\<close>\<close>

text \<open>
  Python strings are modelled as \<^typ>\<open>string\<close> (the UTF-8 bytes of the text), a
  \<^verbatim>\<open>dict\<close> with string keys as an association list in insertion order (its keys
  are distinct, as those of every Python dict), Python floats as \<^typ>\<open>real\<close>
  (no rounding, no \<^verbatim>\<open>inf\<close>, no \<^verbatim>\<open>nan\<close>) and Python integers as \<^typ>\<open>int\<close>.
  An exception is a value of \<open>exn\<close>, and a function that may raise returns
  \<open>exn + 'a\<close>, with \<open>Inl\<close> for the exception.
\<close>

type_synonym dict = "(string \<times> string) list"

datatype json =
    JNull
  | JBool bool
  | JNum int
  | JFloat real
  | JStr string
  | JArr "json list"
  | JObj "(string \<times> json) list"

text \<open>\<^verbatim>\<open>type URL = str | int\<close>, \<^verbatim>\<open>type Method = Literal[...]\<close>,
  \<^verbatim>\<open>type Body = dict | BaseModel\<close>.\<close>

datatype url_arg = ArgStr string | ArgInt int

datatype http_method = GET | PUT | POST | PATCH | DELETE

datatype body = Dict json | BaseModel json

text \<open>The part of \<^verbatim>\<open>requests.Response\<close> that the module reads.\<close>

record response =
  status_code :: int
  headers :: dict
  content :: string

text \<open>
  The exceptions that can leave the module. \<^verbatim>\<open>HTTPError\<close> carries its response
  (\<^verbatim>\<open>e.response\<close>); the transport failures carry their message, so that two
  failures of the same class can be told apart.
\<close>

datatype exn =
    HTTPError response
  | ConnectionError string
  | Timeout string
  | JSONDecodeError
  | KeyError string
  | TypeError
  | ValueError
  | AssertionError
  | OtherError string

text \<open>The attributes that \<^verbatim>\<open>Base.__init__\<close> sets (the session is the environment below).\<close>

record config =
  timeout :: real
  api_root :: string
  jitter_max :: real
  max_retries :: int
  customer_id :: string
  access_token :: string
  retriable_http_codes :: "int set"

definition BASE_URL :: "string \<Rightarrow> string \<Rightarrow> string" where
  "BASE_URL version cid = ''https://api.uber.com/'' @ version @ ''/customers/'' @ cid"

definition OAUTH_URL :: string where
  "OAUTH_URL = ''https://auth.uber.com/oauth''"

definition DEFAULT_TIMEOUT :: real where
  "DEFAULT_TIMEOUT = 10"

definition DEFAULT_JITTER_MAX :: real where
  "DEFAULT_JITTER_MAX = 1 / 2"

definition DEFAULT_MAX_RETRIES :: int where
  "DEFAULT_MAX_RETRIES = 3"

definition DEFAULT_RETRIABLE_HTTP_CODES :: "int set" where
  "DEFAULT_RETRIABLE_HTTP_CODES = {401, 429, 500, 502, 503, 504}"

text \<open>\<^verbatim>\<open>Base.__init__\<close>: every optional argument falls back to its default when it is
  \<^verbatim>\<open>None\<close>, and to nothing else (a negative \<^verbatim>\<open>max_retries\<close> is stored as given).\<close>

definition Base_init ::
  "string \<Rightarrow> string \<Rightarrow> string \<Rightarrow> real option \<Rightarrow> real option \<Rightarrow> int option \<Rightarrow>
   int set option \<Rightarrow> config" where
  "Base_init cid token version tmo jit mr codes =
     \<lparr> timeout = (case tmo of None \<Rightarrow> DEFAULT_TIMEOUT | Some t \<Rightarrow> t),
       api_root = BASE_URL version cid,
       jitter_max = (case jit of None \<Rightarrow> DEFAULT_JITTER_MAX | Some j \<Rightarrow> j),
       max_retries = (case mr of None \<Rightarrow> DEFAULT_MAX_RETRIES | Some m \<Rightarrow> m),
       customer_id = cid,
       access_token = token,
       retriable_http_codes =
         (case codes of None \<Rightarrow> DEFAULT_RETRIABLE_HTTP_CODES | Some cs \<Rightarrow> cs) \<rparr>"

section \<open>URL building (\<^verbatim>\<open>_request\<close>, lines 191-194)\<close>

text \<open>\<^verbatim>\<open>s.rstrip('/')\<close> and \<^verbatim>\<open>s.strip('/')\<close> for a one-character set.\<close>

definition rstrip :: "char \<Rightarrow> string \<Rightarrow> string" where
  "rstrip c s = rev (dropWhile (\<lambda>x. x = c) (rev s))"

definition strip :: "char \<Rightarrow> string \<Rightarrow> string" where
  "strip c s = rstrip c (dropWhile (\<lambda>x. x = c) s)"

text \<open>\<^verbatim>\<open>str(arg)\<close>: a string is itself, an integer is its decimal numeral.\<close>

definition digit_char :: "nat \<Rightarrow> char" where
  "digit_char d = ''0123456789'' ! d"

fun digits :: "nat \<Rightarrow> string" where
  "digits n = (if n < 10 then [digit_char n] else digits (n div 10) @ [digit_char (n mod 10)])"

declare digits.simps [simp del]

definition str_int :: "int \<Rightarrow> string" where
  "str_int i = (if i < 0 then CHR ''-'' # digits (nat (- i)) else digits (nat i))"

fun str :: "url_arg \<Rightarrow> string" where
  "str (ArgStr s) = s"
| "str (ArgInt i) = str_int i"

text \<open>
  \<^verbatim>\<open>urllib.parse.quote(s, safe='')\<close>: every byte outside the unreserved characters
  (letters, digits and \<^verbatim>\<open>_.-~\<close>) becomes \<^verbatim>\<open>%XX\<close> in upper-case hexadecimal.
\<close>

definition unreserved :: "char \<Rightarrow> bool" where
  "unreserved c \<longleftrightarrow>
     c \<in> set ''ABCDEFGHIJKLMNOPQRSTUVWXYZabcdefghijklmnopqrstuvwxyz0123456789_.-~''"

definition hex_digit :: "nat \<Rightarrow> char" where
  "hex_digit d = ''0123456789ABCDEF'' ! d"

definition quote_byte :: "char \<Rightarrow> string" where
  "quote_byte c =
     (if unreserved c then [c]
      else [CHR ''%'', hex_digit (of_char c div 16), hex_digit (of_char c mod 16)])"

definition quote :: "string \<Rightarrow> string" where
  "quote s = concat (map quote_byte s)"

text \<open>\<^verbatim>\<open>sep.join(xs)\<close>.\<close>

fun join :: "string \<Rightarrow> string list \<Rightarrow> string" where
  "join sep [] = []"
| "join sep [x] = x"
| "join sep (x # y # ys) = x @ sep @ join sep (y # ys)"

text \<open>The three lines that build the URL: the root without its trailing separators,
  then every argument stripped and quoted, joined by one separator each.\<close>

definition path_segments :: "config \<Rightarrow> url_arg list \<Rightarrow> string list" where
  "path_segments cfg args =
     rstrip CHR ''/'' (api_root cfg) # map (\<lambda>arg. quote (strip CHR ''/'' (str arg))) args"

definition request_url :: "config \<Rightarrow> url_arg list \<Rightarrow> string" where
  "request_url cfg args = join ''/'' (path_segments cfg args)"

section \<open>The environment and the effects of a call\<close>

text \<open>What \<^verbatim>\<open>Session.request\<close> receives: the keyword arguments of lines 203-210. The
  headers are a dict of the store; \<open>out_headers_at\<close> is its address and
  \<open>out_headers\<close> its contents when the call is made.\<close>

record outgoing =
  out_url :: string
  out_json :: "json option"
  out_method :: http_method
  out_params :: "dict option"
  out_headers_at :: nat
  out_headers :: dict
  out_timeout :: real

text \<open>What \<^verbatim>\<open>requests.post\<close> receives in \<^verbatim>\<open>get_access_token\<close>.\<close>

record post_call =
  post_url :: string
  post_data :: dict
  post_timeout :: real

text \<open>
  Everything the module calls and does not define is a parameter of the model:
  \<^item> \<open>session_request n out\<close>: what the \<open>n\<close>-th call of \<^verbatim>\<open>Session.request\<close> (counted from
    0) does with \<open>out\<close>: it raises (\<open>Inl\<close>) or returns a response;
  \<^item> \<open>requests_post\<close>: the same for the one \<^verbatim>\<open>requests.post\<close> of the token fetcher;
  \<^item> \<open>random_random n\<close>: the \<open>n\<close>-th sample of \<^verbatim>\<open>random.random()\<close>;
  \<^item> \<open>time_sleep d\<close>: \<^verbatim>\<open>time.sleep(d)\<close>, \<open>None\<close> when it returns after the suspension,
    \<open>Some\<close> of the exception when it raises (\<^verbatim>\<open>ValueError\<close> for a negative \<open>d\<close>,
    \<^verbatim>\<open>OverflowError\<close> beyond the platform's limit);
  \<^item> \<open>py_float\<close>: \<^verbatim>\<open>float(text)\<close>, \<open>None\<close> when it raises \<^verbatim>\<open>ValueError\<close>;
  \<^item> \<open>json_loads\<close>: \<^verbatim>\<open>Response.json()\<close> on the body, \<open>None\<close> when it raises;
  \<^item> \<open>model_dump\<close>: \<^verbatim>\<open>BaseModel.model_dump(mode='json', exclude_none=True)\<close>.
\<close>

record env =
  session_request :: "nat \<Rightarrow> outgoing \<Rightarrow> exn + response"
  requests_post :: "post_call \<Rightarrow> exn + response"
  random_random :: "nat \<Rightarrow> real"
  time_sleep :: "real \<Rightarrow> exn option"
  py_float :: "string \<Rightarrow> real option"
  json_loads :: "string \<Rightarrow> json option"
  model_dump :: "json \<Rightarrow> json"

text \<open>The observable effects of a call, in order: each run of \<^verbatim>\<open>_request\<close> with what it
  sent and how it ended, and each \<^verbatim>\<open>sleep\<close> with its argument.\<close>

datatype event = Attempt outgoing "exn + json" | Sleep real

fun outcomes :: "event list \<Rightarrow> (exn + json) list" where
  "outcomes [] = []"
| "outcomes (Attempt out r # tr) = r # outcomes tr"
| "outcomes (Sleep d # tr) = outcomes tr"

fun sent :: "event list \<Rightarrow> outgoing list" where
  "sent [] = []"
| "sent (Attempt out r # tr) = out # sent tr"
| "sent (Sleep d # tr) = sent tr"

fun delays :: "event list \<Rightarrow> real list" where
  "delays [] = []"
| "delays (Attempt out r # tr) = delays tr"
| "delays (Sleep d # tr) = d # delays tr"

text \<open>The store holds the header dicts, addressed by their index: the caller's
  \<^verbatim>\<open>headers\<close> argument is an address (or \<^verbatim>\<open>None\<close>), and a new dict is appended.\<close>

record state =
  heap :: "dict list"
  trace :: "event list"

text \<open>The arguments of \<^verbatim>\<open>_wrapper\<close> and \<^verbatim>\<open>_request\<close>.\<close>

record call =
  c_args :: "url_arg list"
  c_body :: "body option"
  c_params :: "dict option"
  c_method :: http_method
  c_headers :: "nat option"

section \<open>Library functions\<close>

text \<open>\<^verbatim>\<open>random.uniform(a, b)\<close> is \<^verbatim>\<open>a + (b - a) * self.random()\<close>.\<close>

definition uniform :: "real \<Rightarrow> real \<Rightarrow> real \<Rightarrow> real" where
  "uniform a b u = a + (b - a) * u"

text \<open>\<^verbatim>\<open>sleep(d)\<close>: the call is recorded in the trace, whether it returns or raises.\<close>

definition sleep :: "env \<Rightarrow> real \<Rightarrow> state \<Rightarrow> exn option \<times> state" where
  "sleep env d s = (time_sleep env d, s\<lparr>trace := trace s @ [Sleep d]\<rparr>)"

text \<open>\<^verbatim>\<open>Response.raise_for_status()\<close> of requests raises \<^verbatim>\<open>HTTPError(response=self)\<close>
  for the client errors 400..499 and the server errors 500..599, and for nothing else.\<close>

definition raise_for_status :: "response \<Rightarrow> exn option" where
  "raise_for_status r =
     (if 400 \<le> status_code r \<and> status_code r < 600 then Some (HTTPError r) else None)"

definition response_json :: "env \<Rightarrow> response \<Rightarrow> exn + json" where
  "response_json env r =
     (case json_loads env (content r) of None \<Rightarrow> Inl JSONDecodeError | Some j \<Rightarrow> Inr j)"

text \<open>\<^verbatim>\<open>Response.headers.get(name)\<close>: the headers of a response are a
  \<^verbatim>\<open>CaseInsensitiveDict\<close>, which compares names in lower case.\<close>

definition lower :: "char \<Rightarrow> char" where
  "lower ch =
     (case map_of (zip ''ABCDEFGHIJKLMNOPQRSTUVWXYZ'' ''abcdefghijklmnopqrstuvwxyz'') ch of
        None \<Rightarrow> ch
      | Some l \<Rightarrow> l)"

definition header_get :: "dict \<Rightarrow> string \<Rightarrow> string option" where
  "header_get hs name = map_of (map (\<lambda>(k, v). (map lower k, v)) hs) (map lower name)"

text \<open>\<^verbatim>\<open>d.setdefault(k, v)\<close> and \<^verbatim>\<open>obj[k]\<close> on a decoded JSON value.\<close>

definition setdefault :: "string \<Rightarrow> string \<Rightarrow> dict \<Rightarrow> dict" where
  "setdefault k v d = (case map_of d k of None \<Rightarrow> d @ [(k, v)] | Some _ \<Rightarrow> d)"

fun subscript :: "json \<Rightarrow> string \<Rightarrow> exn + json" where
  "subscript (JObj kvs) k = (case map_of kvs k of None \<Rightarrow> Inl (KeyError k) | Some v \<Rightarrow> Inr v)"
| "subscript j k = Inl TypeError"

section \<open>The request executor (\<^verbatim>\<open>_request\<close>)\<close>

text \<open>
  \<^verbatim>\<open>_request\<close>, statement by statement:
  \<^item> \<open>h0\<close>: \<^verbatim>\<open>headers = {**(headers or {})}\<close> allocates a new dict at the address \<open>a\<close>,
    with the items of the caller's dict (of \<^verbatim>\<open>{}\<close> when the argument is \<^verbatim>\<open>None\<close> or an
    empty dict); the caller's argument \<open>Some p\<close> is the address of a dict of the store,
    so \<open>p < length (heap s)\<close>;
  \<^item> \<open>h1\<close>, \<open>h2\<close>: the assignment to \<^verbatim>\<open>headers['Authorization']\<close> and the
    \<^verbatim>\<open>setdefault\<close> update the dict at \<open>a\<close> in place;
  \<^item> \<open>url\<close>: lines 192-194; \<open>body\<close>: a pydantic model is dumped, a dict is passed on;
  \<^item> \<open>res\<close>: the call of \<^verbatim>\<open>Session.request\<close> (lines 203-210), which may raise, then
    \<^verbatim>\<open>raise_for_status\<close> and the decoding of lines 214-217.
  The run is recorded in the trace with what it sent and its outcome.
\<close>

definition request :: "env \<Rightarrow> config \<Rightarrow> call \<Rightarrow> state \<Rightarrow> (exn + json) \<times> state" where
  "request env cfg c s =
     (let a = length (heap s);
          h0 = heap s @ [case c_headers c of None \<Rightarrow> []
                         | Some p \<Rightarrow> if heap s ! p = [] then [] else heap s ! p];
          h1 = h0[a := AList.update ''Authorization'' (''Bearer '' @ access_token cfg) (h0 ! a)];
          h2 = h1[a := setdefault ''Accept'' ''application/json'' (h1 ! a)];
          url = request_url cfg (c_args c);
          body = (case c_body c of
                    None \<Rightarrow> None
                  | Some (BaseModel m) \<Rightarrow> Some (model_dump env m)
                  | Some (Dict d) \<Rightarrow> Some d);
          out = \<lparr> out_url = url, out_json = body, out_method = c_method c,
                  out_params = c_params c, out_headers_at = a, out_headers = h2 ! a,
                  out_timeout = timeout cfg \<rparr>;
          res = (case session_request env (length (outcomes (trace s))) out of
                   Inl e \<Rightarrow> Inl e
                 | Inr response \<Rightarrow>
                     (case raise_for_status response of
                        Some e \<Rightarrow> Inl e
                      | None \<Rightarrow>
                          if status_code response = 204 \<or> content response = []
                          then Inr (JObj [])
                          else response_json env response))
      in (res, \<lparr> heap = h2, trace = trace s @ [Attempt out res] \<rparr>))"

section \<open>The backoff of \<^verbatim>\<open>_wrapper\<close> (lines 154-160 and 167)\<close>

text \<open>\<^verbatim>\<open>min(2**retries, 20) + random.uniform(0, self._jitter_max)\<close>, with \<open>u\<close> the sample
  of \<^verbatim>\<open>random.random()\<close>.\<close>

definition exponential_backoff :: "config \<Rightarrow> nat \<Rightarrow> real \<Rightarrow> real" where
  "exponential_backoff cfg retries u =
     real_of_int (min (2 ^ retries) 20) + uniform 0 (jitter_max cfg) u"

text \<open>The backoff after a retriable \<^verbatim>\<open>HTTPError\<close>: the exponential value is computed
  first; a \<^verbatim>\<open>Retry-After\<close> header that is present, not empty and accepted by
  \<^verbatim>\<open>float\<close> replaces it.\<close>

definition http_backoff :: "env \<Rightarrow> config \<Rightarrow> nat \<Rightarrow> real \<Rightarrow> response \<Rightarrow> real" where
  "http_backoff env cfg retries u r =
     (let backoff = exponential_backoff cfg retries u
      in case header_get (headers r) ''Retry-After'' of
           None \<Rightarrow> backoff
         | Some retry_after \<Rightarrow>
             if retry_after = [] then backoff
             else (case py_float env retry_after of
                     Some f \<Rightarrow> f
                   | None \<Rightarrow> backoff))"

section \<open>The retry orchestrator (\<^verbatim>\<open>_wrapper\<close>)\<close>

text \<open>One run of the loop body ends in \<^verbatim>\<open>return\<close>, in an exception that leaves
  \<^verbatim>\<open>_wrapper\<close>, or in \<^verbatim>\<open>continue\<close> with the failure stored in \<^verbatim>\<open>exception\<close>.\<close>

datatype step = Return json | Raise exn | Continue exn

definition sleep_and_continue :: "env \<Rightarrow> real \<Rightarrow> exn \<Rightarrow> state \<Rightarrow> step \<times> state" where
  "sleep_and_continue env backoff e s =
     (case sleep env backoff s of
        (Some err, s') \<Rightarrow> (Raise err, s')
      | (None, s') \<Rightarrow> (Continue e, s'))"

text \<open>The two \<^verbatim>\<open>except\<close> clauses, in the order of the source; any other exception
  propagates.\<close>

fun handler :: "env \<Rightarrow> config \<Rightarrow> nat \<Rightarrow> exn + json \<Rightarrow> state \<Rightarrow> step \<times> state" where
  "handler env cfg retries (Inr v) s = (Return v, s)"
| "handler env cfg retries (Inl (HTTPError r)) s =
     (if status_code r \<in> retriable_http_codes cfg
      then sleep_and_continue env
             (http_backoff env cfg retries (random_random env (length (delays (trace s)))) r)
             (HTTPError r) s
      else (Raise (HTTPError r), s))"
| "handler env cfg retries (Inl (ConnectionError m)) s =
     sleep_and_continue env
       (exponential_backoff cfg retries (random_random env (length (delays (trace s)))))
       (ConnectionError m) s"
| "handler env cfg retries (Inl (Timeout m)) s =
     sleep_and_continue env
       (exponential_backoff cfg retries (random_random env (length (delays (trace s)))))
       (Timeout m) s"
| "handler env cfg retries (Inl e) s = (Raise e, s)"

definition wrapper_body :: "env \<Rightarrow> config \<Rightarrow> call \<Rightarrow> nat \<Rightarrow> state \<Rightarrow> step \<times> state" where
  "wrapper_body env cfg c retries s =
     (case request env cfg c s of (res, s') \<Rightarrow> handler env cfg retries res s')"

text \<open>The \<^verbatim>\<open>while\<close> loop ends in a \<^verbatim>\<open>return\<close>, in a \<^verbatim>\<open>raise\<close>, or by its
  condition, with the variable \<^verbatim>\<open>exception\<close> as it then stands.\<close>

datatype loop_exit = Returned json | Raised exn | Exhausted "exn option"

function wrapper_loop ::
  "env \<Rightarrow> config \<Rightarrow> call \<Rightarrow> nat \<Rightarrow> exn option \<Rightarrow> state \<Rightarrow> loop_exit \<times> state" where
  "wrapper_loop env cfg c retries exception s =
     (if int retries \<le> max_retries cfg then
        (case wrapper_body env cfg c retries s of
           (Return v, s') \<Rightarrow> (Returned v, s')
         | (Raise e, s') \<Rightarrow> (Raised e, s')
         | (Continue e, s') \<Rightarrow> wrapper_loop env cfg c (retries + 1) (Some e) s')
      else (Exhausted exception, s))"
  by pat_completeness auto
termination
  by (relation "measure (\<lambda>(env, cfg, c, retries, exception, s).
        nat (max_retries cfg + 1 - int retries))") auto

declare wrapper_loop.simps [simp del]

text \<open>\<^verbatim>\<open>_wrapper\<close>: the loop from \<^verbatim>\<open>retries = 0\<close> and \<^verbatim>\<open>exception = None\<close>, then
  \<^verbatim>\<open>assert exception\<close> and \<^verbatim>\<open>raise exception\<close>. It starts with an empty trace, so
  the trace of its final state holds the effects of this call.\<close>

definition wrapper :: "env \<Rightarrow> config \<Rightarrow> call \<Rightarrow> dict list \<Rightarrow> (exn + json) \<times> state" where
  "wrapper env cfg c h =
     (case wrapper_loop env cfg c 0 None \<lparr> heap = h, trace = [] \<rparr> of
        (Returned v, s) \<Rightarrow> (Inr v, s)
      | (Raised e, s) \<Rightarrow> (Inl e, s)
      | (Exhausted None, s) \<Rightarrow> (Inl AssertionError, s)
      | (Exhausted (Some e), s) \<Rightarrow> (Inl e, s))"

text \<open>How the two \<^verbatim>\<open>except\<close> clauses classify a failure, and the backoff they compute
  for it, written as functions of the failure to state the properties below.\<close>

fun retriable :: "config \<Rightarrow> exn \<Rightarrow> bool" where
  "retriable cfg (HTTPError r) \<longleftrightarrow> status_code r \<in> retriable_http_codes cfg"
| "retriable cfg (ConnectionError m) \<longleftrightarrow> True"
| "retriable cfg (Timeout m) \<longleftrightarrow> True"
| "retriable cfg e \<longleftrightarrow> False"

fun backoff_for :: "env \<Rightarrow> config \<Rightarrow> nat \<Rightarrow> real \<Rightarrow> exn \<Rightarrow> real" where
  "backoff_for env cfg retries u (HTTPError r) = http_backoff env cfg retries u r"
| "backoff_for env cfg retries u e = exponential_backoff cfg retries u"

section \<open>The token fetcher (\<^verbatim>\<open>get_access_token\<close>)\<close>

definition get_access_token ::
  "env \<Rightarrow> string \<Rightarrow> string \<Rightarrow> string \<Rightarrow> (exn + json) \<times> post_call list" where
  "get_access_token env version client_id client_secret =
     (let url = join ''/'' [OAUTH_URL, version, ''token''];
          data = [(''scope'', ''eats.deliveries''),
                  (''client_id'', client_id),
                  (''grant_type'', ''client_credentials''),
                  (''client_secret'', client_secret)];
          post = \<lparr> post_url = url, post_data = data, post_timeout = DEFAULT_TIMEOUT \<rparr>;
          res = (case requests_post env post of
                   Inl e \<Rightarrow> Inl e
                 | Inr response \<Rightarrow>
                     (case raise_for_status response of
                        Some e \<Rightarrow> Inl e
                      | None \<Rightarrow>
                          (case response_json env response of
                             Inl e \<Rightarrow> Inl e
                           | Inr jwt \<Rightarrow> subscript jwt ''access_token'')))
      in (res, [post]))"

text \<open>The POST that the specification of the token fetcher describes, written out: the
  fixed endpoint \<^verbatim>\<open><oauth-root>/<version>/token\<close>, the form fields with the fixed scope and
  grant type, and the default timeout. The POST of \<open>get_access_token\<close> is compared with
  it below.\<close>

definition spec_token_post :: "string \<Rightarrow> string \<Rightarrow> string \<Rightarrow> post_call" where
  "spec_token_post version client_id client_secret =
     \<lparr> post_url = ''https://auth.uber.com/oauth/'' @ version @ ''/token'',
       post_data = [(''scope'', ''eats.deliveries''), (''client_id'', client_id),
                    (''grant_type'', ''client_credentials''), (''client_secret'', client_secret)],
       post_timeout = 10 \<rparr>"

section \<open>Concrete environments for the examples\<close>

text \<open>
  \<open>float_dec\<close> is \<^verbatim>\<open>float\<close> restricted to decimal integers with an optional sign, on which
  it agrees with Python (\<^verbatim>\<open>float("-5") == -5.0\<close>); \<open>json_loads_ex\<close> decodes the
  two bodies the examples use. Both serve the examples only: every general theorem is
  stated for an arbitrary environment.
\<close>

definition digit_value :: "char \<Rightarrow> nat option" where
  "digit_value ch = map_of (zip ''0123456789'' [0, 1, 2, 3, 4, 5, 6, 7, 8, 9]) ch"

fun decimal :: "string \<Rightarrow> nat \<Rightarrow> nat option" where
  "decimal [] acc = Some acc"
| "decimal (ch # cs) acc =
     (case digit_value ch of None \<Rightarrow> None | Some d \<Rightarrow> decimal cs (10 * acc + d))"

definition float_dec :: "string \<Rightarrow> real option" where
  "float_dec t =
     (case t of
        [] \<Rightarrow> None
      | ch # cs \<Rightarrow>
          if cs \<noteq> [] \<and> ch = CHR ''-'' then map_option (\<lambda>n. - real n) (decimal cs 0)
          else if cs \<noteq> [] \<and> ch = CHR ''+'' then map_option real (decimal cs 0)
          else map_option real (decimal t 0))"

definition json_loads_ex :: "string \<Rightarrow> json option" where
  \<open>json_loads_ex t =
     (if t = ''[]'' then Some (JArr [])
      else if t = ''{"access_token": "abc"}''
      then Some (JObj [(''access_token'', JStr ''abc'')])
      else None)\<close>

definition reply :: "int \<Rightarrow> dict \<Rightarrow> string \<Rightarrow> exn + response" where
  "reply st hs b = Inr \<lparr> status_code = st, headers = hs, content = b \<rparr>"

text \<open>The environment in which the \<open>n\<close>-th network call ends as \<open>f n\<close> says and
  \<^verbatim>\<open>random.random()\<close> always returns one half; \<^verbatim>\<open>sleep\<close> rejects a negative argument,
  as \<^verbatim>\<open>time.sleep\<close> does.\<close>

definition example_env :: "(nat \<Rightarrow> exn + response) \<Rightarrow> env" where
  "example_env f =
     \<lparr> session_request = (\<lambda>n out. f n), requests_post = (\<lambda>p. f 0),
       random_random = (\<lambda>n. 1 / 2),
       time_sleep = (\<lambda>d. if d < 0 then Some ValueError else None),
       py_float = float_dec, json_loads = json_loads_ex, model_dump = (\<lambda>j. j) \<rparr>"

definition example_call :: call where
  "example_call =
     \<lparr> c_args = [ArgStr ''deliveries'', ArgInt 42], c_body = None, c_params = None,
       c_method = GET, c_headers = None \<rparr>"

text \<open>The runs used as examples below.\<close>

definition example_config :: "int \<Rightarrow> config" where
  "example_config mr = Base_init ''c1'' ''tok'' ''v1'' None None (Some mr) None"

definition run_retry_then_ok :: "(exn + json) \<times> state" where
  "run_retry_then_ok =
     wrapper (example_env (\<lambda>n. if n = 0 then reply 500 [] [] else reply 200 [] ''[]''))
       (example_config 1) example_call []"

definition run_500_then_503 :: "(exn + json) \<times> state" where
  "run_500_then_503 =
     wrapper (example_env (\<lambda>n. if n = 0 then reply 500 [] [] else reply 503 [] []))
       (example_config 1) example_call []"

definition run_500_no_retries :: "(exn + json) \<times> state" where
  "run_500_no_retries =
     wrapper (example_env (\<lambda>n. reply 500 [] [])) (example_config 0) example_call []"

definition run_negative_hint :: "(exn + json) \<times> state" where
  "run_negative_hint =
     wrapper (example_env (\<lambda>n. reply 429 [(''Retry-After'', ''-5'')] []))
       (example_config 0) example_call []"

definition run_404 :: "(exn + json) \<times> state" where
  "run_404 = wrapper (example_env (\<lambda>n. reply 404 [] [])) (example_config 3) example_call []"

definition response_retry_after :: "string \<Rightarrow> response" where
  "response_retry_after t = \<lparr> status_code = 429, headers = [(''Retry-After'', t)], content = [] \<rparr>"

definition call_with_headers :: call where
  "call_with_headers = example_call \<lparr> c_headers := Some 0 \<rparr>"

definition caller_heap :: "dict list" where
  "caller_heap = [[(''Authorization'', ''Basic abc''), (''X-Request-Id'', ''7'')]]"

definition lower_case_heap :: "dict list" where
  "lower_case_heap = [[(''accept'', ''text/plain''), (''authorization'', ''Basic abc'')]]"

definition example_out :: outgoing where
  "example_out =
     \<lparr> out_url = ''https://api.uber.com/v1/customers/c1/deliveries/42'', out_json = None,
       out_method = GET, out_params = None, out_headers_at = 0,
       out_headers = [(''Authorization'', ''Bearer tok''), (''Accept'', ''application/json'')],
       out_timeout = 10 \<rparr>"

definition token_body :: string where
  \<open>token_body = ''{"access_token": "abc"}''\<close>

section \<open>Properties of the loop\<close>

lemmas eval_simps = wrapper_def wrapper_loop.simps wrapper_body_def request_def Let_def
  sleep_and_continue_def sleep_def raise_for_status_def response_json_def http_backoff_def
  exponential_backoff_def uniform_def example_env_def reply_def Base_init_def
  DEFAULT_TIMEOUT_def DEFAULT_JITTER_MAX_def DEFAULT_MAX_RETRIES_def
  DEFAULT_RETRIABLE_HTTP_CODES_def setdefault_def json_loads_ex_def float_dec_def
  digit_value_def header_get_def lower_def

lemma outcomes_append [simp]: "outcomes (xs @ ys) = outcomes xs @ outcomes ys"
  by (induction xs rule: outcomes.induct) simp_all

lemma delays_append [simp]: "delays (xs @ ys) = delays xs @ delays ys"
  by (induction xs rule: delays.induct) simp_all

lemma request_effect:
  assumes "request env cfg c s = (res, s1)"
  shows "\<exists>out d. trace s1 = trace s @ [Attempt out res] \<and> heap s1 = heap s @ [d]"
  using assms by (auto simp: request_def Let_def)

lemma handler_Inl:
  "handler env cfg k (Inl e) s =
     (if retriable cfg e
      then sleep_and_continue env
             (backoff_for env cfg k (random_random env (length (delays (trace s)))) e) e s
      else (Raise e, s))"
  by (cases e) simp_all

lemma sleep_and_continue_eq:
  "sleep_and_continue env d e s =
     (case time_sleep env d of Some err \<Rightarrow> Raise err | None \<Rightarrow> Continue e,
      s\<lparr>trace := trace s @ [Sleep d]\<rparr>)"
  by (simp add: sleep_and_continue_def sleep_def split: option.splits)

text \<open>What one run of the loop body leaves in the trace, by the way it ends.\<close>

lemma wrapper_body_cases:
  assumes "wrapper_body env cfg c k s = (st, s1)"
  obtains
    (Return) out v where "st = Return v" "trace s1 = trace s @ [Attempt out (Inr v)]"
  | (Raise) out e where "st = Raise e" "trace s1 = trace s @ [Attempt out (Inl e)]"
      "\<not> retriable cfg e"
  | (SleepFails) out e d err where "st = Raise err"
      "trace s1 = trace s @ [Attempt out (Inl e), Sleep d]" "retriable cfg e"
      "time_sleep env d = Some err"
      "d = backoff_for env cfg k (random_random env (length (delays (trace s)))) e"
  | (Continue) out e d where "st = Continue e"
      "trace s1 = trace s @ [Attempt out (Inl e), Sleep d]" "retriable cfg e"
      "time_sleep env d = None"
      "d = backoff_for env cfg k (random_random env (length (delays (trace s)))) e"
proof -
  obtain res s0 where req: "request env cfg c s = (res, s0)" by fastforce
  from request_effect [OF req] obtain out where tr: "trace s0 = trace s @ [Attempt out res]"
    by blast
  from assms req have h: "handler env cfg k res s0 = (st, s1)"
    by (simp add: wrapper_body_def)
  show thesis
  proof (cases res)
    case (Inr v)
    with h tr show thesis by (intro Return [of v out]) auto
  next
    case (Inl e)
    show thesis
    proof (cases "retriable cfg e")
      case False
      with h tr Inl show thesis by (intro Raise [of e out]) (auto simp: handler_Inl)
    next
      case True
      let ?d = "backoff_for env cfg k (random_random env (length (delays (trace s)))) e"
      show thesis
      proof (cases "time_sleep env ?d")
        case (Some err)
        with h tr Inl True show thesis
          by (intro SleepFails [of err out e ?d]) (auto simp: handler_Inl sleep_and_continue_eq)
      next
        case None
        with h tr Inl True show thesis
          by (intro Continue [of e out ?d]) (auto simp: handler_Inl sleep_and_continue_eq)
      qed
    qed
  qed
qed

lemma wrapper_loop_induct [consumes 1, case_names Exit Return Raise SleepFails Continue]:
  assumes run: "wrapper_loop env cfg c k x s = (ex, s')"
    and Exit: "\<And>k x s. \<not> int k \<le> max_retries cfg \<Longrightarrow> P k x s (Exhausted x) s"
    and Return: "\<And>k x s out v s1. int k \<le> max_retries cfg \<Longrightarrow>
           trace s1 = trace s @ [Attempt out (Inr v)] \<Longrightarrow> P k x s (Returned v) s1"
    and Raise: "\<And>k x s out e s1. int k \<le> max_retries cfg \<Longrightarrow>
           trace s1 = trace s @ [Attempt out (Inl e)] \<Longrightarrow> \<not> retriable cfg e \<Longrightarrow>
           P k x s (Raised e) s1"
    and SleepFails: "\<And>k x s out e d err s1. int k \<le> max_retries cfg \<Longrightarrow>
           trace s1 = trace s @ [Attempt out (Inl e), Sleep d] \<Longrightarrow> retriable cfg e \<Longrightarrow>
           time_sleep env d = Some err \<Longrightarrow>
           d = backoff_for env cfg k (random_random env (length (delays (trace s)))) e \<Longrightarrow>
           P k x s (Raised err) s1"
    and Continue: "\<And>k x s out e d s1 ex s'. int k \<le> max_retries cfg \<Longrightarrow>
           trace s1 = trace s @ [Attempt out (Inl e), Sleep d] \<Longrightarrow> retriable cfg e \<Longrightarrow>
           time_sleep env d = None \<Longrightarrow>
           d = backoff_for env cfg k (random_random env (length (delays (trace s)))) e \<Longrightarrow>
           wrapper_loop env cfg c (k + 1) (Some e) s1 = (ex, s') \<Longrightarrow>
           P (k + 1) (Some e) s1 ex s' \<Longrightarrow> P k x s ex s'"
  shows "P k x s ex s'"
  using assms
proof (induction env cfg c k x s arbitrary: ex s' rule: wrapper_loop.induct)
  case (1 env cfg c retries exception s)
  note Exit = "1.prems"(2) and Return = "1.prems"(3) and Raise = "1.prems"(4)
    and SleepFails = "1.prems"(5) and Continue = "1.prems"(6)
  show ?case
  proof (cases "int retries \<le> max_retries cfg")
    case False
    with "1.prems"(1) have "ex = Exhausted exception" "s' = s"
      by (simp_all add: wrapper_loop.simps)
    with Exit [OF False] show ?thesis by simp
  next
    case True
    obtain st s1 where body: "wrapper_body env cfg c retries s = (st, s1)" by fastforce
    from body show ?thesis
    proof (cases rule: wrapper_body_cases)
      case (Return out v)
      with body True "1.prems"(1) have "ex = Returned v" "s' = s1"
        by (simp_all add: wrapper_loop.simps)
      with Return(2) True "1.prems"(3) show ?thesis by blast
    next
      case (Raise out e)
      with body True "1.prems"(1) have "ex = Raised e" "s' = s1"
        by (simp_all add: wrapper_loop.simps)
      with Raise(2,3) True "1.prems"(4) show ?thesis by blast
    next
      case (SleepFails out e d err)
      with body True "1.prems"(1) have "ex = Raised err" "s' = s1"
        by (simp_all add: wrapper_loop.simps)
      with SleepFails(2-) True "1.prems"(5) show ?thesis by blast
    next
      case (Continue out e d)
      with body True "1.prems"(1)
      have next_run: "wrapper_loop env cfg c (retries + 1) (Some e) s1 = (ex, s')"
        by (simp add: wrapper_loop.simps)
      have "P (retries + 1) (Some e) s1 ex s'"
        by (rule "1.IH" [OF True body [symmetric] Continue(1) next_run "1.prems"(2-)])
      with Continue(2-) True next_run "1.prems"(6) show ?thesis by blast
    qed
  qed
qed


lemma wrapper_loop_exit:
  assumes "wrapper_loop env cfg c k x s = (ex, s')" and "\<not> int k \<le> max_retries cfg"
  shows "ex = Exhausted x \<and> s' = s"
  using assms by (simp add: wrapper_loop.simps)

lemma wrapper_loop_attempts:
  assumes "wrapper_loop env cfg c k x s = (ex, s')"
  shows "\<exists>new. trace s' = trace s @ new \<and>
           int (length (outcomes new)) \<le> max 0 (max_retries cfg + 1 - int k)"
  using assms
proof (induction rule: wrapper_loop_induct)
  case (Continue k x s out e d s1 ex s')
  then obtain new where "trace s' = trace s1 @ new"
    "int (length (outcomes new)) \<le> max 0 (max_retries cfg + 1 - int (k + 1))" by blast
  with Continue(1,2) show ?case
    by (intro exI [of _ "[Attempt out (Inl e), Sleep d] @ new"]) auto
qed auto

lemma wrapper_loop_success:
  assumes "wrapper_loop env cfg c k x s = (ex, s')"
  shows "\<exists>new. trace s' = trace s @ new \<and>
           (\<forall>v. Inr v \<in> set (outcomes new) \<longrightarrow>
                ex = Returned v \<and> last (outcomes new) = Inr v)"
  using assms
proof (induction rule: wrapper_loop_induct)
  case (Continue k x s out e d s1 ex s')
  then obtain new where new: "trace s' = trace s1 @ new"
    "\<forall>v. Inr v \<in> set (outcomes new) \<longrightarrow> ex = Returned v \<and> last (outcomes new) = Inr v"
    by blast
  have "\<forall>v. Inr v \<in> set (outcomes ([Attempt out (Inl e), Sleep d] @ new)) \<longrightarrow>
          ex = Returned v \<and> last (outcomes ([Attempt out (Inl e), Sleep d] @ new)) = Inr v"
    using new(2) by auto
  with new(1) Continue(2) show ?case
    by (intro exI [of _ "[Attempt out (Inl e), Sleep d] @ new"]) simp
qed auto

lemma wrapper_loop_exhausted:
  assumes "wrapper_loop env cfg c k x s = (ex, s')"
  shows "\<exists>new. trace s' = trace s @ new \<and>
           (\<forall>y. ex = Exhausted y \<and> int k \<le> max_retries cfg \<longrightarrow>
                (\<exists>e. y = Some e \<and> outcomes new \<noteq> [] \<and> last (outcomes new) = Inl e))"
  using assms
proof (induction rule: wrapper_loop_induct)
  case (Continue k x s out e d s1 ex s')
  then obtain new where new: "trace s' = trace s1 @ new"
    "\<forall>y. ex = Exhausted y \<and> int (k + 1) \<le> max_retries cfg \<longrightarrow>
         (\<exists>e. y = Some e \<and> outcomes new \<noteq> [] \<and> last (outcomes new) = Inl e)"
    by blast
  let ?new = "[Attempt out (Inl e), Sleep d] @ new"
  have tr: "trace s' = trace s @ ?new" using new(1) Continue(2) by simp
  show ?case
  proof (cases "int (k + 1) \<le> max_retries cfg")
    case True
    with new(2) have "\<forall>y. ex = Exhausted y \<longrightarrow>
        (\<exists>e. y = Some e \<and> outcomes ?new \<noteq> [] \<and> last (outcomes ?new) = Inl e)"
      by auto
    with tr show ?thesis by blast
  next
    case False
    from wrapper_loop_exit [OF Continue(6) False] have "ex = Exhausted (Some e)" "s' = s1"
      by simp_all
    with new(1) have "new = []" by simp
    with \<open>ex = Exhausted (Some e)\<close> tr show ?thesis
      by (intro exI [of _ ?new]) simp
  qed
qed auto


lemma wrapper_loop_final_failure:
  assumes "wrapper_loop env cfg c k x s = (ex, s')"
  shows "\<exists>new. trace s' = trace s @ new \<and>
           (\<forall>e. int k \<le> max_retries cfg \<and>
                int (length (outcomes new)) = max_retries cfg + 1 - int k \<and>
                last (outcomes new) = Inl e \<and> retriable cfg e \<longrightarrow>
                (\<exists>front out d. new = front @ [Attempt out (Inl e), Sleep d] \<and>
                   d = backoff_for env cfg (nat (max_retries cfg))
                         (random_random env
                            (length (delays (trace s)) + (nat (max_retries cfg) - k))) e \<and>
                   (time_sleep env d = None \<longrightarrow> ex = Exhausted (Some e))))"
  using assms
proof (induction rule: wrapper_loop_induct)
  case (Exit k x s)
  then show ?case by (intro exI [of _ "[]"]) simp
next
  case (Return k x s out v s1)
  then show ?case by (intro exI [of _ "[Attempt out (Inr v)]"]) simp
next
  case (Raise k x s out e s1)
  then show ?case by (intro exI [of _ "[Attempt out (Inl e)]"]) auto
next
  case (SleepFails k x s out e d err s1)
  have sf: "\<exists>front out' d'. [Attempt out (Inl e), Sleep d] = front @ [Attempt out' (Inl e), Sleep d'] \<and>
          d' = backoff_for env cfg (nat (max_retries cfg))
                 (random_random env (length (delays (trace s)) + (nat (max_retries cfg) - k))) e \<and>
          (time_sleep env d' = None \<longrightarrow> Raised err = Exhausted (Some e))"
    if "int (length (outcomes [Attempt out (Inl e), Sleep d])) = max_retries cfg + 1 - int k"
  proof -
    from that have k: "nat (max_retries cfg) = k" by simp
    have "d = backoff_for env cfg (nat (max_retries cfg))
                 (random_random env (length (delays (trace s)) + (nat (max_retries cfg) - k))) e"
      using SleepFails(5) by (simp add: k)
    moreover have "time_sleep env d = None \<longrightarrow> Raised err = Exhausted (Some e)"
      using SleepFails(4) by simp
    ultimately show ?thesis
      by (intro exI [of _ "[]"] exI [of _ out] exI [of _ d] conjI) simp_all
  qed
  have "\<forall>e'. int k \<le> max_retries cfg \<and>
      int (length (outcomes [Attempt out (Inl e), Sleep d])) = max_retries cfg + 1 - int k \<and>
      last (outcomes [Attempt out (Inl e), Sleep d]) = Inl e' \<and> retriable cfg e' \<longrightarrow>
      (\<exists>front out' d'. [Attempt out (Inl e), Sleep d] = front @ [Attempt out' (Inl e'), Sleep d'] \<and>
          d' = backoff_for env cfg (nat (max_retries cfg))
                 (random_random env (length (delays (trace s)) + (nat (max_retries cfg) - k))) e' \<and>
          (time_sleep env d' = None \<longrightarrow> Raised err = Exhausted (Some e')))"
  proof (intro allI impI)
    fix e'
    assume a: "int k \<le> max_retries cfg \<and>
      int (length (outcomes [Attempt out (Inl e), Sleep d])) = max_retries cfg + 1 - int k \<and>
      last (outcomes [Attempt out (Inl e), Sleep d]) = Inl e' \<and> retriable cfg e'"
    then have len: "int (length (outcomes [Attempt out (Inl e), Sleep d])) =
        max_retries cfg + 1 - int k"
      by (elim conjE)
    from a have "e' = e" by simp
    with sf [OF len]
    show "\<exists>front out' d'. [Attempt out (Inl e), Sleep d] = front @ [Attempt out' (Inl e'), Sleep d'] \<and>
          d' = backoff_for env cfg (nat (max_retries cfg))
                 (random_random env (length (delays (trace s)) + (nat (max_retries cfg) - k))) e' \<and>
          (time_sleep env d' = None \<longrightarrow> Raised err = Exhausted (Some e'))"
      by (simp only:)
  qed
  with SleepFails(2) show ?case
    by (intro exI [of _ "[Attempt out (Inl e), Sleep d]"] conjI) assumption+
next
  case (Continue k x s out e0 d0 s1 ex s')
  from Continue(7) obtain new where new: "trace s' = trace s1 @ new"
    and ih0: "\<forall>e. int (k + 1) \<le> max_retries cfg \<and>
         int (length (outcomes new)) = max_retries cfg + 1 - int (k + 1) \<and>
         last (outcomes new) = Inl e \<and> retriable cfg e \<longrightarrow>
         (\<exists>front out d. new = front @ [Attempt out (Inl e), Sleep d] \<and>
            d = backoff_for env cfg (nat (max_retries cfg))
                  (random_random env
                     (length (delays (trace s1)) + (nat (max_retries cfg) - (k + 1)))) e \<and>
            (time_sleep env d = None \<longrightarrow> ex = Exhausted (Some e)))"
    by (elim exE conjE)
  let ?new = "[Attempt out (Inl e0), Sleep d0] @ new"
  have tr: "trace s' = trace s @ ?new" using new Continue(2) by simp
  have step: "\<exists>front out d. ?new = front @ [Attempt out (Inl e), Sleep d] \<and>
          d = backoff_for env cfg (nat (max_retries cfg))
                (random_random env (length (delays (trace s)) + (nat (max_retries cfg) - k))) e \<and>
          (time_sleep env d = None \<longrightarrow> ex = Exhausted (Some e))"
    if len: "int (length (outcomes ?new)) = max_retries cfg + 1 - int k"
      and lst: "last (outcomes ?new) = Inl e" and ret: "retriable cfg e" for e
  proof (cases "int (k + 1) \<le> max_retries cfg")
    case True
    from len have len': "int (length (outcomes new)) = max_retries cfg + 1 - int (k + 1)"
      by simp
    with True have ne: "outcomes new \<noteq> []" by auto
    with lst have lst': "last (outcomes new) = Inl e" by simp
    from ih0 True len' lst' ret obtain front out' d where
      f: "new = front @ [Attempt out' (Inl e), Sleep d]"
      and d: "d = backoff_for env cfg (nat (max_retries cfg))
                  (random_random env
                     (length (delays (trace s1)) + (nat (max_retries cfg) - (k + 1)))) e"
      and r: "time_sleep env d = None \<longrightarrow> ex = Exhausted (Some e)"
      by blast
    have idx: "length (delays (trace s1)) + (nat (max_retries cfg) - (k + 1)) =
               length (delays (trace s)) + (nat (max_retries cfg) - k)"
      using True Continue(2) by simp
    have "?new = ([Attempt out (Inl e0), Sleep d0] @ front) @ [Attempt out' (Inl e), Sleep d]"
      using f by simp
    moreover have "d = backoff_for env cfg (nat (max_retries cfg))
                (random_random env (length (delays (trace s)) + (nat (max_retries cfg) - k))) e"
      using d by (simp only: idx)
    ultimately show ?thesis using r
      by (intro exI [of _ "[Attempt out (Inl e0), Sleep d0] @ front"] exI [of _ out']
            exI [of _ d] conjI) assumption+
  next
    case False
    from wrapper_loop_exit [OF Continue(6) False] have ex: "ex = Exhausted (Some e0)" "s' = s1"
      by simp_all
    with new have n: "new = []" by simp
    with lst have e: "e = e0" by simp
    from False Continue(1) have k: "nat (max_retries cfg) = k" by simp
    have "?new = [] @ [Attempt out (Inl e), Sleep d0]" using n e by simp
    moreover have "d0 = backoff_for env cfg (nat (max_retries cfg))
                (random_random env (length (delays (trace s)) + (nat (max_retries cfg) - k))) e"
      using Continue(5) by (simp add: k e)
    moreover have "time_sleep env d0 = None \<longrightarrow> ex = Exhausted (Some e)"
      using ex e by simp
    ultimately show ?thesis
      by (intro exI [of _ "[]"] exI [of _ out] exI [of _ d0] conjI) assumption+
  qed
  have "\<forall>e. int k \<le> max_retries cfg \<and>
      int (length (outcomes ?new)) = max_retries cfg + 1 - int k \<and>
      last (outcomes ?new) = Inl e \<and> retriable cfg e \<longrightarrow>
      (\<exists>front out d. ?new = front @ [Attempt out (Inl e), Sleep d] \<and>
          d = backoff_for env cfg (nat (max_retries cfg))
                (random_random env (length (delays (trace s)) + (nat (max_retries cfg) - k))) e \<and>
          (time_sleep env d = None \<longrightarrow> ex = Exhausted (Some e)))"
    using step by blast
  with tr show ?case by (intro exI [of _ ?new] conjI) assumption+
qed

lemmas run_simps = eval_simps example_config_def

lemma run_retry_then_ok_eval:
  "fst run_retry_then_ok = Inr (JArr []) \<and>
   outcomes (trace (snd run_retry_then_ok)) =
     [Inl (HTTPError \<lparr> status_code = 500, headers = [], content = [] \<rparr>), Inr (JArr [])] \<and>
   delays (trace (snd run_retry_then_ok)) = [5 / 4]"
  by (simp add: run_retry_then_ok_def run_simps)

lemma run_500_then_503_eval:
  "fst run_500_then_503 = Inl (HTTPError \<lparr> status_code = 503, headers = [], content = [] \<rparr>) \<and>
   outcomes (trace (snd run_500_then_503)) =
     [Inl (HTTPError \<lparr> status_code = 500, headers = [], content = [] \<rparr>),
      Inl (HTTPError \<lparr> status_code = 503, headers = [], content = [] \<rparr>)] \<and>
   delays (trace (snd run_500_then_503)) = [5 / 4, 9 / 4] \<and>
   last (trace (snd run_500_then_503)) = Sleep (9 / 4)"
  by (simp add: run_500_then_503_def run_simps)

lemma run_500_no_retries_eval:
  "fst run_500_no_retries = Inl (HTTPError \<lparr> status_code = 500, headers = [], content = [] \<rparr>) \<and>
   outcomes (trace (snd run_500_no_retries)) =
     [Inl (HTTPError \<lparr> status_code = 500, headers = [], content = [] \<rparr>)] \<and>
   delays (trace (snd run_500_no_retries)) = [5 / 4] \<and>
   last (trace (snd run_500_no_retries)) = Sleep (5 / 4)"
  by (simp add: run_500_no_retries_def run_simps)

lemma run_negative_hint_eval:
  "fst run_negative_hint = Inl ValueError \<and>
   outcomes (trace (snd run_negative_hint)) =
     [Inl (HTTPError \<lparr> status_code = 429, headers = [(''Retry-After'', ''-5'')], content = [] \<rparr>)] \<and>
   delays (trace (snd run_negative_hint)) = [- 5]"
  by (simp add: run_negative_hint_def run_simps)

lemma run_404_eval:
  "fst run_404 = Inl (HTTPError \<lparr> status_code = 404, headers = [], content = [] \<rparr>) \<and>
   outcomes (trace (snd run_404)) =
     [Inl (HTTPError \<lparr> status_code = 404, headers = [], content = [] \<rparr>)] \<and>
   delays (trace (snd run_404)) = []"
  by (simp add: run_404_def run_simps)

lemma wrapper_cases:
  assumes "wrapper env cfg c h = (res, s')"
  obtains ex where "wrapper_loop env cfg c 0 None \<lparr> heap = h, trace = [] \<rparr> = (ex, s')"
    "res = (case ex of Returned v \<Rightarrow> Inr v | Raised e \<Rightarrow> Inl e
            | Exhausted None \<Rightarrow> Inl AssertionError | Exhausted (Some e) \<Rightarrow> Inl e)"
  using assms by (auto simp: wrapper_def split: prod.splits loop_exit.splits option.splits)

section \<open>The retry orchestrator: attempts and results\<close>

text \<open>
  Claim C1. For every call of \<^verbatim>\<open>_wrapper\<close> with \<^verbatim>\<open>max_retries >= 0\<close>, the number of runs
  of the request executor is at most \<^verbatim>\<open>max_retries + 1\<close>; and if any of these runs
  succeeds with a value, that value is what \<^verbatim>\<open>_wrapper\<close> returns, and the run is the
  last one, however many retriable failures came before it.
\<close>

theorem wrapper_attempts_bounded_and_success_returned:
  assumes "0 \<le> max_retries cfg" and "wrapper env cfg c h = (res, s')"
  shows "int (length (outcomes (trace s'))) \<le> max_retries cfg + 1 \<and>
         (\<forall>v. Inr v \<in> set (outcomes (trace s')) \<longrightarrow>
              res = Inr v \<and> last (outcomes (trace s')) = Inr v)"
proof -
  from assms(2) obtain ex where
    run: "wrapper_loop env cfg c 0 None \<lparr> heap = h, trace = [] \<rparr> = (ex, s')"
    and res: "res = (case ex of Returned v \<Rightarrow> Inr v | Raised e \<Rightarrow> Inl e
            | Exhausted None \<Rightarrow> Inl AssertionError | Exhausted (Some e) \<Rightarrow> Inl e)"
    by (rule wrapper_cases)
  from wrapper_loop_attempts [OF run] assms(1)
  have "int (length (outcomes (trace s'))) \<le> max_retries cfg + 1" by auto
  moreover from wrapper_loop_success [OF run] res
  have "\<forall>v. Inr v \<in> set (outcomes (trace s')) \<longrightarrow>
           res = Inr v \<and> last (outcomes (trace s')) = Inr v" by auto
  ultimately show ?thesis by simp
qed

theorem wrapper_attempts_bounded_witness:
  "0 \<le> max_retries (example_config 1) \<and>
   int (length (outcomes (trace (snd run_retry_then_ok)))) \<le> max_retries (example_config 1) + 1 \<and>
   Inr (JArr []) \<in> set (outcomes (trace (snd run_retry_then_ok))) \<and>
   fst run_retry_then_ok = Inr (JArr []) \<and>
   last (outcomes (trace (snd run_retry_then_ok))) = Inr (JArr [])"
  using wrapper_attempts_bounded_and_success_returned
    [of "example_config 1"
        "example_env (\<lambda>n. if n = 0 then reply 500 [] [] else reply 200 [] ''[]'')"
        example_call "[]" "fst run_retry_then_ok" "snd run_retry_then_ok"]
    run_retry_then_ok_eval
  by (simp add: run_retry_then_ok_def [symmetric] example_config_def Base_init_def)

text \<open>
  Claim C2, amended. When the run of the executor at attempt counter \<^verbatim>\<open>max_retries\<close> fails
  with a retriable failure \<open>e\<close> (an \<^verbatim>\<open>HTTPError\<close> with a retriable status, a
  \<^verbatim>\<open>ConnectionError\<close> or a \<^verbatim>\<open>Timeout\<close>), no further run is made: it is run number
  \<^verbatim>\<open>max_retries + 1\<close> and the last. The trace then ends with that run and one more
  \<^verbatim>\<open>sleep\<close>, whose argument is the backoff computed for \<open>e\<close> at that counter: the
  suspension is not skipped for the final failure. Provided that \<^verbatim>\<open>sleep\<close> returns,
  \<^verbatim>\<open>_wrapper\<close> then raises \<open>e\<close>, the most recent failure.
\<close>

theorem final_retriable_failure_reraised_after_backoff:
  assumes "0 \<le> max_retries cfg" and "wrapper env cfg c h = (res, s')"
    and "nat (max_retries cfg) < length (outcomes (trace s'))"
    and "outcomes (trace s') ! nat (max_retries cfg) = Inl e"
    and "retriable cfg e"
  shows "length (outcomes (trace s')) = nat (max_retries cfg) + 1 \<and>
         (\<exists>front out d.
            trace s' = front @ [Attempt out (Inl e), Sleep d] \<and>
            d = backoff_for env cfg (nat (max_retries cfg))
                  (random_random env (nat (max_retries cfg))) e \<and>
            (time_sleep env d = None \<longrightarrow> res = Inl e))"
proof -
  from assms(2) obtain ex where
    run: "wrapper_loop env cfg c 0 None \<lparr> heap = h, trace = [] \<rparr> = (ex, s')"
    and res: "res = (case ex of Returned v \<Rightarrow> Inr v | Raised e \<Rightarrow> Inl e
            | Exhausted None \<Rightarrow> Inl AssertionError | Exhausted (Some e) \<Rightarrow> Inl e)"
    by (rule wrapper_cases)
  from wrapper_loop_attempts [OF run] assms(1)
  have "int (length (outcomes (trace s'))) \<le> max_retries cfg + 1" by auto
  with assms(1,3) have len: "length (outcomes (trace s')) = nat (max_retries cfg) + 1"
    by linarith
  then have "outcomes (trace s') \<noteq> []" by auto
  then have "last (outcomes (trace s')) = outcomes (trace s') ! nat (max_retries cfg)"
    using len by (simp add: last_conv_nth)
  with assms(4) have lst: "last (outcomes (trace s')) = Inl e" by simp
  from len assms(1) have len': "int (length (outcomes (trace s'))) = max_retries cfg + 1 - int 0"
    by simp
  from wrapper_loop_final_failure [OF run] assms(1) len' lst assms(5)
  obtain front out d where
    "trace s' = front @ [Attempt out (Inl e), Sleep d]"
    "d = backoff_for env cfg (nat (max_retries cfg)) (random_random env (nat (max_retries cfg))) e"
    "time_sleep env d = None \<longrightarrow> ex = Exhausted (Some e)"
    by auto
  with res len show ?thesis by auto
qed

theorem final_retriable_failure_witness:
  "0 \<le> max_retries (example_config 1) \<and>
   nat (max_retries (example_config 1)) < length (outcomes (trace (snd run_500_then_503))) \<and>
   outcomes (trace (snd run_500_then_503)) ! nat (max_retries (example_config 1)) =
     Inl (HTTPError \<lparr> status_code = 503, headers = [], content = [] \<rparr>) \<and>
   retriable (example_config 1) (HTTPError \<lparr> status_code = 503, headers = [], content = [] \<rparr>) \<and>
   length (outcomes (trace (snd run_500_then_503))) = 2 \<and>
   last (trace (snd run_500_then_503)) = Sleep (9 / 4) \<and>
   fst run_500_then_503 = Inl (HTTPError \<lparr> status_code = 503, headers = [], content = [] \<rparr>)"
  using final_retriable_failure_reraised_after_backoff
    [of "example_config 1"
        "example_env (\<lambda>n. if n = 0 then reply 500 [] [] else reply 503 [] [])"
        example_call "[]" "fst run_500_then_503" "snd run_500_then_503"
        "HTTPError \<lparr> status_code = 503, headers = [], content = [] \<rparr>"]
    run_500_then_503_eval
  by (simp add: run_500_then_503_def [symmetric] example_config_def Base_init_def
        DEFAULT_RETRIABLE_HTTP_CODES_def)

text \<open>
  The claim as stated fails: with \<^verbatim>\<open>max_retries = 0\<close> and a server that answers 500, the
  single failure is followed by a suspension of 1.25 seconds before it is raised again;
  and when the final failure carries \<^verbatim>\<open>Retry-After: -5\<close>, the \<^verbatim>\<open>ValueError\<close> of
  \<^verbatim>\<open>sleep(-5.0)\<close> is raised in place of the captured failure.
\<close>

theorem final_failure_is_followed_by_backoff:
  "max_retries (example_config 0) = 0 \<and>
   fst run_500_no_retries = Inl (HTTPError \<lparr> status_code = 500, headers = [], content = [] \<rparr>) \<and>
   outcomes (trace (snd run_500_no_retries)) =
     [Inl (HTTPError \<lparr> status_code = 500, headers = [], content = [] \<rparr>)] \<and>
   last (trace (snd run_500_no_retries)) = Sleep (5 / 4) \<and>
   fst run_negative_hint = Inl ValueError \<and>
   outcomes (trace (snd run_negative_hint)) =
     [Inl (HTTPError \<lparr> status_code = 429, headers = [(''Retry-After'', ''-5'')], content = [] \<rparr>)]"
  using run_500_no_retries_eval run_negative_hint_eval
  by (simp add: example_config_def Base_init_def)

text \<open>
  Claim C3. When the first run of the executor fails with an \<^verbatim>\<open>HTTPError\<close> whose status
  code is not in the retriable set, \<^verbatim>\<open>_wrapper\<close> raises that same error, with its
  response unchanged; the executor has run exactly once, nothing has slept, and the
  final state is the one that single run left.
\<close>

theorem non_retriable_http_error_raised_at_once:
  assumes "0 \<le> max_retries cfg"
    and "fst (request env cfg c \<lparr> heap = h, trace = [] \<rparr>) = Inl (HTTPError r)"
    and "status_code r \<notin> retriable_http_codes cfg"
  shows "fst (wrapper env cfg c h) = Inl (HTTPError r) \<and>
         outcomes (trace (snd (wrapper env cfg c h))) = [Inl (HTTPError r)] \<and>
         delays (trace (snd (wrapper env cfg c h))) = [] \<and>
         snd (wrapper env cfg c h) = snd (request env cfg c \<lparr> heap = h, trace = [] \<rparr>)"
proof -
  obtain s1 where req: "request env cfg c \<lparr> heap = h, trace = [] \<rparr> = (Inl (HTTPError r), s1)"
    using assms(2) by (cases "request env cfg c \<lparr> heap = h, trace = [] \<rparr>") auto
  from request_effect [OF req] obtain out where tr: "trace s1 = [Attempt out (Inl (HTTPError r))]"
    by auto
  from req assms(3)
  have "wrapper_body env cfg c 0 \<lparr> heap = h, trace = [] \<rparr> = (Raise (HTTPError r), s1)"
    by (simp add: wrapper_body_def)
  with assms(1) have "wrapper_loop env cfg c 0 None \<lparr> heap = h, trace = [] \<rparr> = (Raised (HTTPError r), s1)"
    by (simp add: wrapper_loop.simps)
  then have "wrapper env cfg c h = (Inl (HTTPError r), s1)"
    by (simp add: wrapper_def)
  with tr req show ?thesis by simp
qed

theorem non_retriable_http_error_witness:
  "0 \<le> max_retries (example_config 3) \<and>
   fst (request (example_env (\<lambda>n. reply 404 [] [])) (example_config 3) example_call
          \<lparr> heap = [], trace = [] \<rparr>) =
     Inl (HTTPError \<lparr> status_code = 404, headers = [], content = [] \<rparr>) \<and>
   404 \<notin> retriable_http_codes (example_config 3) \<and>
   fst run_404 = Inl (HTTPError \<lparr> status_code = 404, headers = [], content = [] \<rparr>) \<and>
   outcomes (trace (snd run_404)) =
     [Inl (HTTPError \<lparr> status_code = 404, headers = [], content = [] \<rparr>)] \<and>
   delays (trace (snd run_404)) = []"
proof -
  have req: "fst (request (example_env (\<lambda>n. reply 404 [] [])) (example_config 3) example_call
          \<lparr> heap = [], trace = [] \<rparr>) =
     Inl (HTTPError \<lparr> status_code = 404, headers = [], content = [] \<rparr>)"
    by (simp add: run_simps)
  have cfg: "0 \<le> max_retries (example_config 3)"
    "status_code \<lparr> status_code = 404, headers = [], content = [] \<rparr>
       \<notin> retriable_http_codes (example_config 3)"
    by (simp_all add: run_simps)
  from non_retriable_http_error_raised_at_once [OF cfg(1) req cfg(2)]
  have "fst run_404 = Inl (HTTPError \<lparr> status_code = 404, headers = [], content = [] \<rparr>)"
    and "outcomes (trace (snd run_404)) =
      [Inl (HTTPError \<lparr> status_code = 404, headers = [], content = [] \<rparr>)]"
    and "delays (trace (snd run_404)) = []"
    unfolding run_404_def by blast+
  with req cfg show ?thesis by simp
qed

text \<open>
  Claim C10. With \<^verbatim>\<open>max_retries >= 0\<close>, whenever the loop ends by its condition the
  variable \<^verbatim>\<open>exception\<close> holds a failure, the outcome of the last run of the executor, so
  \<^verbatim>\<open>assert exception\<close> passes and that failure is raised. With a negative
  \<^verbatim>\<open>max_retries\<close> the loop body never runs: the loop ends at once with
  \<^verbatim>\<open>exception = None\<close>, the executor is not called, and \<^verbatim>\<open>_wrapper\<close> raises
  \<^verbatim>\<open>AssertionError\<close>. \<^verbatim>\<open>Base.__init__\<close> stores a \<^verbatim>\<open>max_retries\<close> that is not
  \<^verbatim>\<open>None\<close> as it is given, negative or not. (Assertions are executed: the interpreter
  runs without \<^verbatim>\<open>-O\<close>.)
\<close>

theorem assert_exception_holds_iff_max_retries_nonnegative:
  "(0 \<le> max_retries cfg \<and>
    wrapper_loop env cfg c 0 None \<lparr> heap = h, trace = [] \<rparr> = (Exhausted x, s') \<longrightarrow>
      (\<exists>e. x = Some e \<and> outcomes (trace s') \<noteq> [] \<and> last (outcomes (trace s')) = Inl e \<and>
           wrapper env cfg c h = (Inl e, s'))) \<and>
   (max_retries cfg < 0 \<longrightarrow>
      wrapper_loop env cfg c 0 None \<lparr> heap = h, trace = [] \<rparr> =
        (Exhausted None, \<lparr> heap = h, trace = [] \<rparr>) \<and>
      wrapper env cfg c h = (Inl AssertionError, \<lparr> heap = h, trace = [] \<rparr>)) \<and>
   max_retries (Base_init cid token version tmo jit (Some m) codes) = m"
proof (intro conjI impI)
  assume a: "0 \<le> max_retries cfg \<and>
    wrapper_loop env cfg c 0 None \<lparr> heap = h, trace = [] \<rparr> = (Exhausted x, s')"
  then have run: "wrapper_loop env cfg c 0 None \<lparr> heap = h, trace = [] \<rparr> = (Exhausted x, s')"
    by simp
  from wrapper_loop_exhausted [OF run] a
  obtain e where "x = Some e" "outcomes (trace s') \<noteq> []" "last (outcomes (trace s')) = Inl e"
    by auto
  with run show "\<exists>e. x = Some e \<and> outcomes (trace s') \<noteq> [] \<and>
      last (outcomes (trace s')) = Inl e \<and> wrapper env cfg c h = (Inl e, s')"
    by (simp add: wrapper_def)
next
  assume "max_retries cfg < 0"
  then show "wrapper_loop env cfg c 0 None \<lparr> heap = h, trace = [] \<rparr> =
        (Exhausted None, \<lparr> heap = h, trace = [] \<rparr>)"
    by (simp add: wrapper_loop.simps)
  then show "wrapper env cfg c h = (Inl AssertionError, \<lparr> heap = h, trace = [] \<rparr>)"
    by (simp add: wrapper_def)
next
  show "max_retries (Base_init cid token version tmo jit (Some m) codes) = m"
    by (simp add: Base_init_def)
qed

theorem assert_exception_witness:
  "0 \<le> max_retries (example_config 0) \<and>
   fst (wrapper_loop (example_env (\<lambda>n. reply 500 [] [])) (example_config 0) example_call 0 None
          \<lparr> heap = [], trace = [] \<rparr>) =
     Exhausted (Some (HTTPError \<lparr> status_code = 500, headers = [], content = [] \<rparr>)) \<and>
   fst run_500_no_retries = Inl (HTTPError \<lparr> status_code = 500, headers = [], content = [] \<rparr>) \<and>
   max_retries (example_config (- 1)) < 0 \<and>
   wrapper (example_env (\<lambda>n. reply 500 [] [])) (example_config (- 1)) example_call [] =
     (Inl AssertionError, \<lparr> heap = [], trace = [] \<rparr>)"
proof -
  let ?env = "example_env (\<lambda>n. reply 500 [] [])"
  let ?r = "HTTPError \<lparr> status_code = 500, headers = [], content = [] \<rparr>"
  let ?loop = "wrapper_loop ?env (example_config 0) example_call 0 None \<lparr> heap = [], trace = [] \<rparr>"
  have exit: "fst ?loop = Exhausted (Some ?r)"
    by (simp add: run_simps)
  then have loop: "?loop = (Exhausted (Some ?r), snd ?loop)"
    by (metis prod.collapse)
  have pos: "0 \<le> max_retries (example_config 0)" and neg: "max_retries (example_config (- 1)) < 0"
    by (simp_all add: run_simps)
  from assert_exception_holds_iff_max_retries_nonnegative
         [of "example_config 0" ?env example_call "[]" "Some ?r" "snd ?loop"] loop pos
  have "wrapper ?env (example_config 0) example_call [] = (Inl ?r, snd ?loop)"
    by blast
  then have raised: "fst run_500_no_retries = Inl ?r"
    by (simp add: run_500_no_retries_def)
  from assert_exception_holds_iff_max_retries_nonnegative
         [of "example_config (- 1)" ?env example_call "[]"] neg
  have "wrapper ?env (example_config (- 1)) example_call [] =
          (Inl AssertionError, \<lparr> heap = [], trace = [] \<rparr>)"
    by blast
  with exit raised pos neg show ?thesis by simp
qed

lemma uniform_bounds:
  assumes "0 \<le> j" and "0 \<le> u" and "u < 1"
  shows "0 \<le> uniform 0 j u" and "uniform 0 j u \<le> j"
proof -
  from assms show "0 \<le> uniform 0 j u" by (simp add: uniform_def)
  from assms have "j * u \<le> j * 1" by (intro mult_left_mono) simp_all
  then show "uniform 0 j u \<le> j" by (simp add: uniform_def)
qed

lemma capped_power_small: "a \<le> 4 \<Longrightarrow> min ((2::int) ^ a) 20 = 2 ^ a"
proof -
  assume "a \<le> 4"
  then have "(2::int) ^ a \<le> 2 ^ 4" by (intro power_increasing) simp_all
  then show ?thesis by simp
qed

lemma capped_power_large: "5 \<le> a \<Longrightarrow> min ((2::int) ^ a) 20 = 20"
proof -
  assume "5 \<le> a"
  then have "(2::int) ^ 5 \<le> 2 ^ a" by (intro power_increasing) simp_all
  then show ?thesis by simp
qed

section \<open>The backoff policy\<close>

text \<open>
  Claim C5. For every attempt index \<open>a\<close>, jitter bound \<open>j \<ge> 0\<close> and sample
  \<open>u\<close> of \<^verbatim>\<open>random.random()\<close> (so \<open>0 \<le> u < 1\<close>), the backoff computed without a
  server hint is \<^verbatim>\<open>min(2**a, 20) + uniform(0, j)\<close> with \<open>0 \<le> uniform(0, j) \<le> j\<close>;
  it lies in \<open>[2^a, 2^a + j]\<close> for \<open>a \<le> 4\<close>, in \<open>[20, 20 + j]\<close> for \<open>a \<ge> 5\<close>, and
  is never negative. This is the backoff of a \<^verbatim>\<open>ConnectionError\<close>, of a \<^verbatim>\<open>Timeout\<close>
  and of an \<^verbatim>\<open>HTTPError\<close> without a \<^verbatim>\<open>Retry-After\<close> header.
\<close>

theorem exponential_backoff_bounds:
  assumes "0 \<le> jitter_max cfg" and "0 \<le> u" and "u < 1"
  shows "exponential_backoff cfg a u =
           real_of_int (min (2 ^ a) 20) + uniform 0 (jitter_max cfg) u \<and>
         0 \<le> uniform 0 (jitter_max cfg) u \<and> uniform 0 (jitter_max cfg) u \<le> jitter_max cfg \<and>
         (a \<le> 4 \<longrightarrow> 2 ^ a \<le> exponential_backoff cfg a u \<and>
                    exponential_backoff cfg a u \<le> 2 ^ a + jitter_max cfg) \<and>
         (5 \<le> a \<longrightarrow> 20 \<le> exponential_backoff cfg a u \<and>
                    exponential_backoff cfg a u \<le> 20 + jitter_max cfg) \<and>
         0 \<le> exponential_backoff cfg a u \<and>
         (header_get (headers r) ''Retry-After'' = None \<longrightarrow>
            backoff_for env cfg a u (HTTPError r) = exponential_backoff cfg a u) \<and>
         backoff_for env cfg a u (ConnectionError m) = exponential_backoff cfg a u \<and>
         backoff_for env cfg a u (Timeout m) = exponential_backoff cfg a u"
proof -
  note ub = uniform_bounds [OF assms]
  have eq: "exponential_backoff cfg a u =
      real_of_int (min (2 ^ a) 20) + uniform 0 (jitter_max cfg) u"
    by (simp add: exponential_backoff_def)
  have small: "2 ^ a \<le> exponential_backoff cfg a u \<and>
      exponential_backoff cfg a u \<le> 2 ^ a + jitter_max cfg" if "a \<le> 4"
    using ub by (simp add: eq capped_power_small [OF that])
  have large: "20 \<le> exponential_backoff cfg a u \<and>
      exponential_backoff cfg a u \<le> 20 + jitter_max cfg" if "5 \<le> a"
    using ub by (simp add: eq capped_power_large [OF that])
  have "(0::int) \<le> min (2 ^ a) 20" by simp
  then have "(0::real) \<le> real_of_int (min (2 ^ a) 20)" by (simp only: of_int_0_le_iff)
  with ub(1) have nonneg: "0 \<le> exponential_backoff cfg a u" unfolding eq by linarith
  have hint: "backoff_for env cfg a u (HTTPError r) = exponential_backoff cfg a u"
    if "header_get (headers r) ''Retry-After'' = None"
    using that by (simp add: http_backoff_def)
  from eq ub small large nonneg hint show ?thesis by simp
qed

theorem exponential_backoff_witness:
  "0 \<le> jitter_max (example_config 3) \<and> (0::real) \<le> 1 / 2 \<and> (1 / 2 :: real) < 1 \<and>
   exponential_backoff (example_config 3) 3 (1 / 2) = 33 / 4 \<and>
   (3::nat) \<le> 4 \<and> (2::real) ^ 3 \<le> 33 / 4 \<and> (33 / 4 :: real) \<le> 2 ^ 3 + jitter_max (example_config 3) \<and>
   exponential_backoff (example_config 3) 7 (1 / 2) = 81 / 4 \<and>
   (5::nat) \<le> 7 \<and> (20::real) \<le> 81 / 4 \<and> (81 / 4 :: real) \<le> 20 + jitter_max (example_config 3) \<and>
   header_get (headers \<lparr> status_code = 500, headers = [], content = [] \<rparr>) ''Retry-After'' = None \<and>
   backoff_for (example_env (\<lambda>n. reply 500 [] [])) (example_config 3) 3 (1 / 2)
     (HTTPError \<lparr> status_code = 500, headers = [], content = [] \<rparr>) = 33 / 4"
proof -
  have h: "0 \<le> jitter_max (example_config 3)" "(0::real) \<le> 1 / 2" "(1 / 2 :: real) < 1"
    by (simp_all add: example_config_def Base_init_def DEFAULT_JITTER_MAX_def)
  have v: "exponential_backoff (example_config 3) 3 (1 / 2) = 33 / 4"
    "exponential_backoff (example_config 3) 7 (1 / 2) = 81 / 4"
    "jitter_max (example_config 3) = 1 / 2"
    by (simp_all add: example_config_def Base_init_def DEFAULT_JITTER_MAX_def
          exponential_backoff_def uniform_def)
  from exponential_backoff_bounds [OF h, of 3 "\<lparr> status_code = 500, headers = [], content = [] \<rparr>"
         "example_env (\<lambda>n. reply 500 [] [])"]
       exponential_backoff_bounds [OF h, of 7]
       h v
  show ?thesis by (simp add: header_get_def)
qed

text \<open>
  Claim C4, amended. For an \<^verbatim>\<open>HTTPError\<close> with response \<open>r\<close>: if the \<^verbatim>\<open>Retry-After\<close>
  header is present, not empty and accepted by \<^verbatim>\<open>float\<close>, the backoff is exactly the
  parsed value, with no jitter; if the header is missing, empty or rejected by
  \<^verbatim>\<open>float\<close>, the backoff is \<^verbatim>\<open>min(2**retries, 20) + uniform(0, jitter_max)\<close>; the
  backoff is not negative when the jitter bound is not negative and the parsed value, if
  there is one, is not negative. For a retriable status this backoff is what
  \<^verbatim>\<open>sleep\<close> receives.
\<close>

theorem retry_after_backoff:
  "(\<forall>t f. header_get (headers r) ''Retry-After'' = Some t \<and> t \<noteq> [] \<and> py_float env t = Some f \<longrightarrow>
       http_backoff env cfg k u r = f) \<and>
   (header_get (headers r) ''Retry-After'' = None \<or>
    (\<exists>t. header_get (headers r) ''Retry-After'' = Some t \<and> (t = [] \<or> py_float env t = None)) \<longrightarrow>
       http_backoff env cfg k u r =
         real_of_int (min (2 ^ k) 20) + uniform 0 (jitter_max cfg) u) \<and>
   (0 \<le> jitter_max cfg \<and> 0 \<le> u \<and> u < 1 \<and>
    (\<forall>t f. header_get (headers r) ''Retry-After'' = Some t \<and> t \<noteq> [] \<and> py_float env t = Some f \<longrightarrow>
       0 \<le> f) \<longrightarrow>
       0 \<le> http_backoff env cfg k u r) \<and>
   (status_code r \<in> retriable_http_codes cfg \<longrightarrow>
      delays (trace (snd (handler env cfg k (Inl (HTTPError r)) s))) =
        delays (trace s) @
          [http_backoff env cfg k (random_random env (length (delays (trace s)))) r])"
proof (intro conjI impI allI)
  fix t f
  assume "header_get (headers r) ''Retry-After'' = Some t \<and> t \<noteq> [] \<and> py_float env t = Some f"
  then show "http_backoff env cfg k u r = f" by (simp add: http_backoff_def)
next
  assume "header_get (headers r) ''Retry-After'' = None \<or>
    (\<exists>t. header_get (headers r) ''Retry-After'' = Some t \<and> (t = [] \<or> py_float env t = None))"
  then show "http_backoff env cfg k u r =
      real_of_int (min (2 ^ k) 20) + uniform 0 (jitter_max cfg) u"
    by (auto simp: http_backoff_def exponential_backoff_def Let_def)
next
  assume a: "0 \<le> jitter_max cfg \<and> 0 \<le> u \<and> u < 1 \<and>
    (\<forall>t f. header_get (headers r) ''Retry-After'' = Some t \<and> t \<noteq> [] \<and> py_float env t = Some f \<longrightarrow>
       0 \<le> f)"
  then have "0 \<le> uniform 0 (jitter_max cfg) u" by (simp add: uniform_bounds)
  moreover have "(0::real) \<le> real_of_int (min (2 ^ k) 20)" by simp
  ultimately have "0 \<le> exponential_backoff cfg k u"
    unfolding exponential_backoff_def by linarith
  with a show "0 \<le> http_backoff env cfg k u r"
    by (auto simp: http_backoff_def Let_def split: option.splits)
next
  assume "status_code r \<in> retriable_http_codes cfg"
  then show "delays (trace (snd (handler env cfg k (Inl (HTTPError r)) s))) =
      delays (trace s) @ [http_backoff env cfg k (random_random env (length (delays (trace s)))) r]"
    by (simp add: sleep_and_continue_eq)
qed

theorem retry_after_backoff_witness:
  "header_get (headers (response_retry_after ''7'')) ''Retry-After'' = Some ''7'' \<and>
   py_float (example_env (\<lambda>n. reply 500 [] [])) ''7'' = Some 7 \<and>
   http_backoff (example_env (\<lambda>n. reply 500 [] [])) (example_config 3) 2 (1 / 2)
     (response_retry_after ''7'') = 7 \<and>
   header_get (headers (response_retry_after ''soon'')) ''Retry-After'' = Some ''soon'' \<and>
   py_float (example_env (\<lambda>n. reply 500 [] [])) ''soon'' = None \<and>
   http_backoff (example_env (\<lambda>n. reply 500 [] [])) (example_config 3) 2 (1 / 2)
     (response_retry_after ''soon'') = 17 / 4 \<and>
   status_code (response_retry_after ''7'') \<in> retriable_http_codes (example_config 3) \<and>
   delays (trace (snd (handler (example_env (\<lambda>n. reply 500 [] [])) (example_config 3) 2
      (Inl (HTTPError (response_retry_after ''7''))) \<lparr> heap = [], trace = [] \<rparr>))) = [7]"
proof -
  let ?env = "example_env (\<lambda>n. reply 500 [] [])"
  have p: "header_get (headers (response_retry_after ''7'')) ''Retry-After'' = Some ''7''"
    "py_float ?env ''7'' = Some 7" "''7'' \<noteq> []"
    "header_get (headers (response_retry_after ''soon'')) ''Retry-After'' = Some ''soon''"
    "py_float ?env ''soon'' = None"
    "status_code (response_retry_after ''7'') \<in> retriable_http_codes (example_config 3)"
    "0 \<le> jitter_max (example_config 3)"
    by (simp_all add: response_retry_after_def run_simps)
  have v: "real_of_int (min (2 ^ 2) 20) + uniform 0 (jitter_max (example_config 3)) (1 / 2) = 17 / 4"
    by (simp add: run_simps)
  note w7 = retry_after_backoff [of "response_retry_after ''7''" ?env "example_config 3" 2 "1 / 2"
              "\<lparr> heap = [], trace = [] \<rparr>"]
  note ws = retry_after_backoff [of "response_retry_after ''soon''" ?env "example_config 3" 2 "1 / 2"]
  from w7 p have a: "http_backoff ?env (example_config 3) 2 (1 / 2) (response_retry_after ''7'') = 7"
    by blast
  from ws p v have b: "http_backoff ?env (example_config 3) 2 (1 / 2) (response_retry_after ''soon'') = 17 / 4"
    by metis
  from w7 p have c: "delays (trace (snd (handler ?env (example_config 3) 2
      (Inl (HTTPError (response_retry_after ''7''))) \<lparr> heap = [], trace = [] \<rparr>))) =
      delays (trace \<lparr> heap = [], trace = [] \<rparr>) @
        [http_backoff ?env (example_config 3) 2
           (random_random ?env (length (delays (trace \<lparr> heap = [], trace = [] \<rparr>))))
           (response_retry_after ''7'')]"
    by blast
  have r: "random_random ?env n = 1 / 2" for n by (simp add: example_env_def)
  from a b c p show ?thesis by (simp add: r)
qed

text \<open>
  The claim as stated fails: nothing clamps the parsed value, so \<^verbatim>\<open>Retry-After: -5\<close>
  gives the backoff \<open>-5\<close>.
\<close>

theorem negative_retry_after_gives_negative_backoff:
  "header_get (headers (response_retry_after ''-5'')) ''Retry-After'' = Some ''-5'' \<and>
   py_float (example_env (\<lambda>n. reply 500 [] [])) ''-5'' = Some (- 5) \<and>
   http_backoff (example_env (\<lambda>n. reply 500 [] [])) (example_config 3) 0 (1 / 2)
     (response_retry_after ''-5'') = - 5 \<and>
   http_backoff (example_env (\<lambda>n. reply 500 [] [])) (example_config 3) 0 (1 / 2)
     (response_retry_after ''-5'') < 0"
  by (simp add: response_retry_after_def run_simps)

section \<open>The URL builder\<close>

lemma join_Cons: "join sep (x # xs) = x @ concat (map (\<lambda>y. sep @ y) xs)"
  by (induction xs arbitrary: x) simp_all

lemma hex_digit_unreserved: "d < 16 \<Longrightarrow> unreserved (hex_digit d)"
proof -
  assume "d < 16"
  then have "hex_digit d \<in> set ''0123456789ABCDEF''"
    unfolding hex_digit_def by (intro nth_mem) simp
  then show ?thesis by (auto simp: unreserved_def)
qed

lemma quote_byte_chars:
  assumes "ch \<in> set (quote_byte c)"
  shows "unreserved ch \<or> ch = CHR ''%''"
proof (cases "unreserved c")
  case True
  with assms show ?thesis by (simp add: quote_byte_def)
next
  case False
  have "(of_char c :: nat) < 256" by (rule nat_of_char_less_256)
  then have "(of_char c :: nat) div 16 < 16" "(of_char c :: nat) mod 16 < 16" by presburger+
  then have "unreserved (hex_digit (of_char c div 16))" "unreserved (hex_digit (of_char c mod 16))"
    by (simp_all add: hex_digit_unreserved)
  with assms False show ?thesis by (auto simp: quote_byte_def)
qed

lemma quote_chars: "ch \<in> set (quote s) \<Longrightarrow> unreserved ch \<or> ch = CHR ''%''"
  by (auto simp: quote_def dest: quote_byte_chars)

lemma quote_no_separator: "CHR ''/'' \<notin> set (quote s)"
proof
  assume "CHR ''/'' \<in> set (quote s)"
  then have "unreserved CHR ''/'' \<or> CHR ''/'' = CHR ''%''" by (rule quote_chars)
  then show False by (simp add: unreserved_def)
qed

lemma quote_eq_Nil: "quote s = [] \<longleftrightarrow> s = []"
  by (cases s) (auto simp: quote_def quote_byte_def)

lemma rstrip_decomp: "s = rstrip c s @ rev (takeWhile (\<lambda>x. x = c) (rev s))"
  by (simp only: rstrip_def rev_append [symmetric] takeWhile_dropWhile_id rev_rev_ident)

lemma rstrip_last: "rstrip c s \<noteq> [] \<Longrightarrow> last (rstrip c s) \<noteq> c"
  using hd_dropWhile [of "\<lambda>x. x = c" "rev s"] by (simp add: rstrip_def last_rev)

lemma rstrip_hd: "rstrip c s \<noteq> [] \<Longrightarrow> hd (rstrip c s) = hd s"
  using rstrip_decomp [of s c] by (metis hd_append2)

lemma rstrip_unchanged: "s = [] \<or> last s \<noteq> c \<Longrightarrow> rstrip c s = s"
  by (cases "rev s") (auto simp: rstrip_def last_rev)

lemma strip_ends:
  assumes "strip c s \<noteq> []"
  shows "hd (strip c s) \<noteq> c \<and> last (strip c s) \<noteq> c"
proof -
  let ?t = "dropWhile (\<lambda>x. x = c) s"
  from assms have t: "?t \<noteq> []" by (cases "?t = []") (simp_all add: strip_def rstrip_def)
  from assms have "hd (strip c s) = hd ?t" unfolding strip_def by (rule rstrip_hd)
  moreover from t have "hd ?t \<noteq> c" using hd_dropWhile [of "\<lambda>x. x = c" s] by simp
  moreover from assms have "last (strip c s) \<noteq> c" unfolding strip_def by (rule rstrip_last)
  ultimately show ?thesis by simp
qed

text \<open>
  What the code builds when no segment is empty after stripping: the root without its
  trailing separators (which then does not end with a separator), followed for each
  segment, in order, by one separator and the segment stripped of its leading and
  trailing separators and then percent-escaped. Such an escaped segment is not empty and
  contains no separator, only unreserved characters and percent escapes. With no segment
  the URL is the stripped root.
\<close>

lemma request_url_of_nonempty_segments:
  assumes "\<forall>arg \<in> set args. strip CHR ''/'' (str arg) \<noteq> []"
  shows "request_url cfg args =
     rstrip CHR ''/'' (api_root cfg) @
     concat (map (\<lambda>arg. CHR ''/'' # quote (strip CHR ''/'' (str arg))) args) \<and>
   (rstrip CHR ''/'' (api_root cfg) \<noteq> [] \<longrightarrow> last (rstrip CHR ''/'' (api_root cfg)) \<noteq> CHR ''/'') \<and>
   (\<forall>arg \<in> set args.
      quote (strip CHR ''/'' (str arg)) \<noteq> [] \<and>
      CHR ''/'' \<notin> set (quote (strip CHR ''/'' (str arg))) \<and>
      (\<forall>ch \<in> set (quote (strip CHR ''/'' (str arg))). unreserved ch \<or> ch = CHR ''%'') \<and>
      hd (strip CHR ''/'' (str arg)) \<noteq> CHR ''/'' \<and>
      last (strip CHR ''/'' (str arg)) \<noteq> CHR ''/'') \<and>
   request_url cfg [] = rstrip CHR ''/'' (api_root cfg)"
proof -
  have shape: "request_url cfg args =
     rstrip CHR ''/'' (api_root cfg) @
     concat (map (\<lambda>arg. CHR ''/'' # quote (strip CHR ''/'' (str arg))) args)"
    by (simp add: request_url_def path_segments_def join_Cons comp_def)
  have root: "rstrip CHR ''/'' (api_root cfg) \<noteq> [] \<longrightarrow>
      last (rstrip CHR ''/'' (api_root cfg)) \<noteq> CHR ''/''"
    by (simp add: rstrip_last)
  have segs: "\<forall>arg \<in> set args.
      quote (strip CHR ''/'' (str arg)) \<noteq> [] \<and>
      CHR ''/'' \<notin> set (quote (strip CHR ''/'' (str arg))) \<and>
      (\<forall>ch \<in> set (quote (strip CHR ''/'' (str arg))). unreserved ch \<or> ch = CHR ''%'') \<and>
      hd (strip CHR ''/'' (str arg)) \<noteq> CHR ''/'' \<and>
      last (strip CHR ''/'' (str arg)) \<noteq> CHR ''/''"
    using assms by (simp add: quote_no_separator quote_chars quote_eq_Nil strip_ends)
  have none: "request_url cfg [] = rstrip CHR ''/'' (api_root cfg)"
    by (simp add: request_url_def path_segments_def)
  from shape root segs none show ?thesis by blast
qed

text \<open>
  Claim C6. The built URL is to have exactly one separator between consecutive segments
  and no empty segment, with every segment stripped and percent-escaped; the source
  says the same in its comment on lines 192-194:
  \<^verbatim>\<open>safe URL join without double slashes and with path segment quoting\<close>. The code strips and escapes every segment, but a segment that is
  empty after stripping is joined like any other: the arguments \<^verbatim>\<open>('', 'x')\<close> give two
  adjacent separators, and \<^verbatim>\<open>('deliveries', '/')\<close> a trailing separator, that is an
  empty last segment.
\<close>

theorem request_url_keeps_empty_segments:
  "request_url (example_config 3) [ArgStr [], ArgStr ''x''] =
     ''https://api.uber.com/v1/customers/c1//x'' \<and>
   request_url (example_config 3) [ArgStr ''deliveries'', ArgStr ''/''] =
     ''https://api.uber.com/v1/customers/c1/deliveries/''"
  by (simp add: request_url_def path_segments_def example_config_def Base_init_def BASE_URL_def
        rstrip_def strip_def quote_def quote_byte_def unreserved_def)

section \<open>The request executor\<close>

lemma map_of_setdefault:
  "map_of (setdefault k v d) k' =
     (if k' = k then Some (case map_of d k of None \<Rightarrow> v | Some w \<Rightarrow> w) else map_of d k')"
  by (auto simp: setdefault_def map_add_def split: option.splits)

lemma request_unfold:
  "request env cfg c s =
     (let src = (case c_headers c of None \<Rightarrow> [] | Some p \<Rightarrow> heap s ! p);
          hdrs = setdefault ''Accept'' ''application/json''
                   (AList.update ''Authorization'' (''Bearer '' @ access_token cfg) src);
          out = \<lparr> out_url = request_url cfg (c_args c),
                  out_json = (case c_body c of None \<Rightarrow> None
                              | Some (BaseModel m) \<Rightarrow> Some (model_dump env m)
                              | Some (Dict d) \<Rightarrow> Some d),
                  out_method = c_method c, out_params = c_params c,
                  out_headers_at = length (heap s), out_headers = hdrs,
                  out_timeout = timeout cfg \<rparr>;
          res = (case session_request env (length (outcomes (trace s))) out of
                   Inl e \<Rightarrow> Inl e
                 | Inr response \<Rightarrow>
                     (case raise_for_status response of
                        Some e \<Rightarrow> Inl e
                      | None \<Rightarrow>
                          if status_code response = 204 \<or> content response = []
                          then Inr (JObj [])
                          else response_json env response))
      in (res, \<lparr> heap = heap s @ [hdrs], trace = trace s @ [Attempt out res] \<rparr>))"
  by (cases "c_headers c") (simp_all add: request_def Let_def)

lemma handler_heap: "heap (snd (handler env cfg k res s)) = heap s"
proof (cases res)
  case (Inl e)
  then show ?thesis by (simp add: handler_Inl sleep_and_continue_eq)
next
  case (Inr v)
  then show ?thesis by simp
qed

lemma wrapper_body_heap:
  assumes "wrapper_body env cfg c k s = (st, s1)"
  shows "\<exists>d. heap s1 = heap s @ [d]"
proof -
  obtain res s0 where req: "request env cfg c s = (res, s0)" by fastforce
  with assms have "s1 = snd (handler env cfg k res s0)" by (simp add: wrapper_body_def)
  with request_effect [OF req] show ?thesis by (auto simp: handler_heap)
qed

lemma wrapper_loop_heap:
  "wrapper_loop env cfg c k x s = (ex, s') \<Longrightarrow> \<exists>hs. heap s' = heap s @ hs"
proof (induction env cfg c k x s arbitrary: ex s' rule: wrapper_loop.induct)
  case (1 env cfg c retries exception s)
  show ?case
  proof (cases "int retries \<le> max_retries cfg")
    case False
    with "1.prems" show ?thesis by (simp add: wrapper_loop.simps)
  next
    case True
    obtain st s1 where body: "wrapper_body env cfg c retries s = (st, s1)" by fastforce
    from wrapper_body_heap [OF body] obtain d where d: "heap s1 = heap s @ [d]" ..
    show ?thesis
    proof (cases st)
      case (Return v)
      with body True "1.prems" d show ?thesis by (simp add: wrapper_loop.simps)
    next
      case (Raise e)
      with body True "1.prems" d show ?thesis by (simp add: wrapper_loop.simps)
    next
      case (Continue e)
      with body True "1.prems"
      have "wrapper_loop env cfg c (retries + 1) (Some e) s1 = (ex, s')"
        by (simp add: wrapper_loop.simps)
      from "1.IH" [OF True body [symmetric] Continue this] d show ?thesis by auto
    qed
  qed
qed

lemma wrapper_heap: "take (length h) (heap (snd (wrapper env cfg c h))) = h"
proof -
  obtain res s' where w: "wrapper env cfg c h = (res, s')" by fastforce
  then obtain ex where "wrapper_loop env cfg c 0 None \<lparr> heap = h, trace = [] \<rparr> = (ex, s')"
    by (rule wrapper_cases)
  from wrapper_loop_heap [OF this] w show ?thesis by auto
qed

text \<open>
  Claim C7, amended. When the caller supplies a headers dict (at address \<open>p\<close> of the
  store), one run of the executor leaves that dict, and every other dict that existed
  before, as it was: the run works on a new dict at a new address. The headers it sends
  are that new dict. In it the key spelled exactly \<^verbatim>\<open>Authorization\<close> holds
  \<^verbatim>\<open>Bearer <token>\<close>, whatever the caller had under that key; the key spelled exactly
  \<^verbatim>\<open>Accept\<close> holds the caller's value if the caller's dict has that very key, and
  \<^verbatim>\<open>application/json\<close> otherwise; every other key, a differently cased
  \<^verbatim>\<open>accept\<close> or \<^verbatim>\<open>authorization\<close> included, is as the caller gave it. The caller's
  dict is unchanged after a whole \<^verbatim>\<open>_wrapper\<close> call as well.
\<close>

theorem request_copies_headers:
  assumes "c_headers c = Some p" and "p < length (heap s)"
    and "request env cfg c s = (res, s1)"
  shows "heap s1 ! p = heap s ! p \<and> take (length (heap s)) (heap s1) = heap s \<and>
         (\<exists>out. trace s1 = trace s @ [Attempt out res] \<and>
            out_headers_at out = length (heap s) \<and> out_headers_at out \<noteq> p \<and>
            heap s1 ! out_headers_at out = out_headers out \<and>
            map_of (out_headers out) ''Authorization'' = Some (''Bearer '' @ access_token cfg) \<and>
            map_of (out_headers out) ''Accept'' =
              Some (case map_of (heap s ! p) ''Accept'' of
                      None \<Rightarrow> ''application/json'' | Some v \<Rightarrow> v) \<and>
            (\<forall>k. k \<noteq> ''Authorization'' \<and> k \<noteq> ''Accept'' \<longrightarrow>
                 map_of (out_headers out) k = map_of (heap s ! p) k)) \<and>
         take (length (heap s)) (heap (snd (wrapper env cfg c (heap s)))) = heap s \<and>
         heap (snd (wrapper env cfg c (heap s))) ! p = heap s ! p"
proof -
  have one: "heap s1 ! p = heap s ! p \<and> take (length (heap s)) (heap s1) = heap s \<and>
         (\<exists>out. trace s1 = trace s @ [Attempt out res] \<and>
            out_headers_at out = length (heap s) \<and> out_headers_at out \<noteq> p \<and>
            heap s1 ! out_headers_at out = out_headers out \<and>
            map_of (out_headers out) ''Authorization'' = Some (''Bearer '' @ access_token cfg) \<and>
            map_of (out_headers out) ''Accept'' =
              Some (case map_of (heap s ! p) ''Accept'' of
                      None \<Rightarrow> ''application/json'' | Some v \<Rightarrow> v) \<and>
            (\<forall>k. k \<noteq> ''Authorization'' \<and> k \<noteq> ''Accept'' \<longrightarrow>
                 map_of (out_headers out) k = map_of (heap s ! p) k))"
    using assms
    by (auto simp: request_unfold Let_def nth_append map_of_setdefault update_conv')
  have all: "take (length (heap s)) (heap (snd (wrapper env cfg c (heap s)))) = heap s"
    by (rule wrapper_heap)
  have "heap (snd (wrapper env cfg c (heap s))) ! p =
        take (length (heap s)) (heap (snd (wrapper env cfg c (heap s)))) ! p"
    using assms(2) by simp
  with all have "heap (snd (wrapper env cfg c (heap s))) ! p = heap s ! p" by simp
  with one all show ?thesis by blast
qed

theorem request_copies_headers_witness:
  "c_headers call_with_headers = Some 0 \<and> 0 < length (heap \<lparr> heap = caller_heap, trace = [] \<rparr>) \<and>
   heap (snd (request (example_env (\<lambda>n. reply 200 [] ''[]'')) (example_config 3)
     call_with_headers \<lparr> heap = caller_heap, trace = [] \<rparr>)) =
     [[(''Authorization'', ''Basic abc''), (''X-Request-Id'', ''7'')],
      [(''Authorization'', ''Bearer tok''), (''X-Request-Id'', ''7''),
       (''Accept'', ''application/json'')]] \<and>
   heap (snd (request (example_env (\<lambda>n. reply 200 [] ''[]'')) (example_config 3)
     call_with_headers \<lparr> heap = caller_heap, trace = [] \<rparr>)) ! 0 = caller_heap ! 0"
proof -
  let ?env = "example_env (\<lambda>n. reply 200 [] ''[]'')"
  let ?s = "\<lparr> heap = caller_heap, trace = [] \<rparr>"
  let ?r = "request ?env (example_config 3) call_with_headers ?s"
  have h: "c_headers call_with_headers = Some 0" "0 < length (heap ?s)"
    by (simp_all add: call_with_headers_def caller_heap_def)
  have r: "?r = (fst ?r, snd ?r)" by simp
  from request_copies_headers [OF h r] have "heap (snd ?r) ! 0 = heap ?s ! 0" by blast
  then have same: "heap (snd ?r) ! 0 = caller_heap ! 0" by simp
  have "heap (snd ?r) =
     [[(''Authorization'', ''Basic abc''), (''X-Request-Id'', ''7'')],
      [(''Authorization'', ''Bearer tok''), (''X-Request-Id'', ''7''),
       (''Accept'', ''application/json'')]]"
    by (simp add: run_simps call_with_headers_def caller_heap_def example_call_def)
  with h same show ?thesis by simp
qed

text \<open>
  The claim as stated fails for a caller whose header names are not spelled as the code
  spells them. Header names are case-insensitive (the module itself reads
  \<^verbatim>\<open>Retry-After\<close> so), and a caller who supplies \<^verbatim>\<open>accept: text/plain\<close> has supplied an
  Accept header; the code still adds \<^verbatim>\<open>Accept: application/json\<close>, and the caller's
  \<^verbatim>\<open>authorization\<close> stays in the headers beside the bearer token.
\<close>

theorem lower_case_accept_is_not_recognised:
  "header_get (lower_case_heap ! 0) ''Accept'' = Some ''text/plain'' \<and>
   header_get (lower_case_heap ! 0) ''Authorization'' = Some ''Basic abc'' \<and>
   map out_headers (sent (trace (snd (request (example_env (\<lambda>n. reply 200 [] ''[]''))
     (example_config 3) call_with_headers \<lparr> heap = lower_case_heap, trace = [] \<rparr>)))) =
     [[(''accept'', ''text/plain''), (''authorization'', ''Basic abc''),
       (''Authorization'', ''Bearer tok''), (''Accept'', ''application/json'')]]"
  by (simp add: run_simps call_with_headers_def lower_case_heap_def example_call_def)

text \<open>
  Claim C8, amended. Let \<open>r\<close> be the response the transport returns to one run of the
  executor. If \<open>400 \<le> status < 600\<close> the run fails with the \<^verbatim>\<open>HTTPError\<close> that carries
  \<open>r\<close>. Otherwise, if the status is 204 or the body is empty the run returns the empty
  mapping, and else it returns the JSON value decoded from the body (and fails with the
  decoder's error when the body is not JSON). A status of 600 or more is not an error for
  \<^verbatim>\<open>raise_for_status\<close>.
\<close>

theorem request_result_by_status:
  assumes "request env cfg c s = (res, s1)"
    and "trace s1 = trace s @ [Attempt out res]"
    and "session_request env (length (outcomes (trace s))) out = Inr r"
  shows "(400 \<le> status_code r \<and> status_code r < 600 \<longrightarrow> res = Inl (HTTPError r)) \<and>
         (\<not> (400 \<le> status_code r \<and> status_code r < 600) \<and>
          (status_code r = 204 \<or> content r = []) \<longrightarrow> res = Inr (JObj [])) \<and>
         (\<not> (400 \<le> status_code r \<and> status_code r < 600) \<and>
          status_code r \<noteq> 204 \<and> content r \<noteq> [] \<longrightarrow>
            (\<forall>j. json_loads env (content r) = Some j \<longrightarrow> res = Inr j) \<and>
            (json_loads env (content r) = None \<longrightarrow> res = Inl JSONDecodeError))"
  using assms
  by (auto simp: request_unfold Let_def raise_for_status_def response_json_def)

theorem request_result_witness:
  "session_request (example_env (\<lambda>n. reply 404 [] ''[]'')) 0 example_out =
     Inr \<lparr> status_code = 404, headers = [], content = ''[]'' \<rparr> \<and>
   request (example_env (\<lambda>n. reply 404 [] ''[]'')) (example_config 3) example_call
     \<lparr> heap = [], trace = [] \<rparr> =
     (Inl (HTTPError \<lparr> status_code = 404, headers = [], content = ''[]'' \<rparr>),
      \<lparr> heap = [out_headers example_out],
        trace = [Attempt example_out
                   (Inl (HTTPError \<lparr> status_code = 404, headers = [], content = ''[]'' \<rparr>))] \<rparr>) \<and>
   fst (request (example_env (\<lambda>n. reply 204 [] ''[]'')) (example_config 3) example_call
     \<lparr> heap = [], trace = [] \<rparr>) = Inr (JObj []) \<and>
   fst (request (example_env (\<lambda>n. reply 200 [] [])) (example_config 3) example_call
     \<lparr> heap = [], trace = [] \<rparr>) = Inr (JObj []) \<and>
   fst (request (example_env (\<lambda>n. reply 200 [] ''[]'')) (example_config 3) example_call
     \<lparr> heap = [], trace = [] \<rparr>) = Inr (JArr [])"
proof -
  let ?s = "\<lparr> heap = [], trace = [] \<rparr>"
  note ev = run_simps example_call_def example_out_def request_url_def path_segments_def
    BASE_URL_def rstrip_def strip_def quote_def quote_byte_def unreserved_def str_int_def
    digits.simps digit_char_def
  have tr: "trace (snd (request (example_env (\<lambda>n. reply st [] b)) (example_config 3)
        example_call ?s)) =
      trace ?s @ [Attempt example_out (fst (request (example_env (\<lambda>n. reply st [] b))
        (example_config 3) example_call ?s))]" for st b
    by (simp add: ev)
  have hp: "heap (snd (request (example_env (\<lambda>n. reply st [] b)) (example_config 3)
        example_call ?s)) = [out_headers example_out]" for st b
    by (simp add: ev)
  have sr: "session_request (example_env (\<lambda>n. reply st [] b)) (length (outcomes (trace ?s)))
        example_out = Inr \<lparr> status_code = st, headers = [], content = b \<rparr>" for st b
    by (simp add: example_env_def reply_def)
  have pr: "request env cfg c s = (fst (request env cfg c s), snd (request env cfg c s))"
    for env cfg c s by simp
  note w = request_result_by_status [OF pr tr sr]
  from w [of 404 "''[]''"]
  have a: "fst (request (example_env (\<lambda>n. reply 404 [] ''[]'')) (example_config 3) example_call ?s) =
     Inl (HTTPError \<lparr> status_code = 404, headers = [], content = ''[]'' \<rparr>)"
    by simp
  from w [of 204 "''[]''"]
  have b: "fst (request (example_env (\<lambda>n. reply 204 [] ''[]'')) (example_config 3) example_call ?s) =
     Inr (JObj [])"
    by simp
  from w [of 200 "[]"]
  have c: "fst (request (example_env (\<lambda>n. reply 200 [] [])) (example_config 3) example_call ?s) =
     Inr (JObj [])"
    by simp
  have "json_loads (example_env (\<lambda>n. reply 200 [] ''[]'')) ''[]'' = Some (JArr [])"
    by (simp add: example_env_def json_loads_ex_def)
  with w [of 200 "''[]''"]
  have d: "fst (request (example_env (\<lambda>n. reply 200 [] ''[]'')) (example_config 3) example_call ?s) =
     Inr (JArr [])"
    by simp
  have e: "snd (request (example_env (\<lambda>n. reply 404 [] ''[]'')) (example_config 3) example_call ?s) =
     \<lparr> heap = [out_headers example_out],
       trace = [Attempt example_out
                  (Inl (HTTPError \<lparr> status_code = 404, headers = [], content = ''[]'' \<rparr>))] \<rparr>"
    using tr [of 404 "''[]''"] hp [of 404 "''[]''"] a by (intro state.equality) simp_all
  from a b c d e sr [of 404 "''[]''"] show ?thesis
    by (simp add: prod_eq_iff)
qed

text \<open>
  The claim as stated fails for a status of 600 or more: \<^verbatim>\<open>raise_for_status\<close> does not
  raise, and the body is decoded and returned.
\<close>

theorem status_600_is_not_raised:
  "(400::int) \<le> 600 \<and>
   session_request (example_env (\<lambda>n. reply 600 [] ''[]'')) 0 example_out =
     Inr \<lparr> status_code = 600, headers = [], content = ''[]'' \<rparr> \<and>
   request (example_env (\<lambda>n. reply 600 [] ''[]'')) (example_config 3) example_call
     \<lparr> heap = [], trace = [] \<rparr> =
     (Inr (JArr []),
      \<lparr> heap = [out_headers example_out], trace = [Attempt example_out (Inr (JArr []))] \<rparr>)"
  by (simp add: run_simps example_call_def example_out_def request_url_def path_segments_def
    BASE_URL_def rstrip_def strip_def quote_def quote_byte_def unreserved_def str_int_def
    digits.simps digit_char_def)

section \<open>The token fetcher\<close>

text \<open>
  Claim C9, amended. \<^verbatim>\<open>get_access_token\<close> makes exactly one POST, to
  \<^verbatim>\<open>https://auth.uber.com/oauth/<version>/token\<close> with the fixed scope and grant type, the
  client id and secret and the default timeout, and never a second one. If the POST raises,
  that exception propagates; if the response has a status in 400..599, the
  \<^verbatim>\<open>HTTPError\<close> carrying it is raised; otherwise, when the body decodes to an object with
  the key \<^verbatim>\<open>access_token\<close>, exactly the value under that key is returned.
\<close>

theorem get_access_token_behaviour:
  "snd (get_access_token env version client_id client_secret) =
     [spec_token_post version client_id client_secret] \<and>
   (\<forall>e. requests_post env (spec_token_post version client_id client_secret) = Inl e \<longrightarrow>
        fst (get_access_token env version client_id client_secret) = Inl e) \<and>
   (\<forall>r. requests_post env (spec_token_post version client_id client_secret) = Inr r \<and>
        400 \<le> status_code r \<and> status_code r < 600 \<longrightarrow>
        fst (get_access_token env version client_id client_secret) = Inl (HTTPError r)) \<and>
   (\<forall>r kvs tok. requests_post env (spec_token_post version client_id client_secret) = Inr r \<and>
        \<not> (400 \<le> status_code r \<and> status_code r < 600) \<and>
        json_loads env (content r) = Some (JObj kvs) \<and>
        map_of kvs ''access_token'' = Some tok \<longrightarrow>
        fst (get_access_token env version client_id client_secret) = Inr tok)"
  by (simp add: get_access_token_def spec_token_post_def OAUTH_URL_def DEFAULT_TIMEOUT_def Let_def
        raise_for_status_def response_json_def)

theorem get_access_token_witness:
  "requests_post (example_env (\<lambda>n. reply 401 [] [])) (spec_token_post ''v2'' ''id'' ''secret'') =
     Inr \<lparr> status_code = 401, headers = [], content = [] \<rparr> \<and>
   get_access_token (example_env (\<lambda>n. reply 401 [] [])) ''v2'' ''id'' ''secret'' =
     (Inl (HTTPError \<lparr> status_code = 401, headers = [], content = [] \<rparr>),
      [spec_token_post ''v2'' ''id'' ''secret'']) \<and>
   requests_post (example_env (\<lambda>n. reply 200 [] token_body)) (spec_token_post ''v2'' ''id'' ''secret'') =
     Inr \<lparr> status_code = 200, headers = [], content = token_body \<rparr> \<and>
   json_loads (example_env (\<lambda>n. reply 200 [] token_body)) token_body =
     Some (JObj [(''access_token'', JStr ''abc'')]) \<and>
   get_access_token (example_env (\<lambda>n. reply 200 [] token_body)) ''v2'' ''id'' ''secret'' =
     (Inr (JStr ''abc''), [spec_token_post ''v2'' ''id'' ''secret'']) \<and>
   requests_post (example_env (\<lambda>n. Inl (ConnectionError ''refused''))) (spec_token_post ''v2'' ''id'' ''secret'') =
     Inl (ConnectionError ''refused'') \<and>
   get_access_token (example_env (\<lambda>n. Inl (ConnectionError ''refused''))) ''v2'' ''id'' ''secret'' =
     (Inl (ConnectionError ''refused''), [spec_token_post ''v2'' ''id'' ''secret''])"
proof -
  have p: "requests_post (example_env f) q = f 0" for f q by (simp add: example_env_def)
  have j: "json_loads (example_env f) token_body = Some (JObj [(''access_token'', JStr ''abc'')])"
    for f by (simp add: example_env_def json_loads_ex_def token_body_def)
  note w = get_access_token_behaviour [of _ "''v2''" "''id''" "''secret''"]
  from w [of "example_env (\<lambda>n. reply 401 [] [])"]
  have a: "get_access_token (example_env (\<lambda>n. reply 401 [] [])) ''v2'' ''id'' ''secret'' =
     (Inl (HTTPError \<lparr> status_code = 401, headers = [], content = [] \<rparr>),
      [spec_token_post ''v2'' ''id'' ''secret''])"
    by (simp add: p reply_def prod_eq_iff)
  from w [of "example_env (\<lambda>n. reply 200 [] token_body)"] j
  have b: "get_access_token (example_env (\<lambda>n. reply 200 [] token_body)) ''v2'' ''id'' ''secret'' =
     (Inr (JStr ''abc''), [spec_token_post ''v2'' ''id'' ''secret''])"
    by (simp add: p reply_def prod_eq_iff)
  from w [of "example_env (\<lambda>n. Inl (ConnectionError ''refused''))"]
  have c: "get_access_token (example_env (\<lambda>n. Inl (ConnectionError ''refused''))) ''v2'' ''id'' ''secret'' =
     (Inl (ConnectionError ''refused''), [spec_token_post ''v2'' ''id'' ''secret''])"
    by (simp add: p prod_eq_iff)
  from a b c j show ?thesis by (simp add: p reply_def)
qed

text \<open>
  The claim as stated fails for a response that is neither 2xx nor an error for
  \<^verbatim>\<open>raise_for_status\<close>: a 300 response whose body holds a token is decoded and the
  token returned, and nothing is raised.
\<close>

theorem redirect_status_is_not_raised:
  "requests_post (example_env (\<lambda>n. reply 300 [] token_body)) (spec_token_post ''v2'' ''id'' ''secret'') =
     Inr \<lparr> status_code = 300, headers = [], content = token_body \<rparr> \<and>
   get_access_token (example_env (\<lambda>n. reply 300 [] token_body)) ''v2'' ''id'' ''secret'' =
     (Inr (JStr ''abc''), [spec_token_post ''v2'' ''id'' ''secret''])"
  by (simp add: get_access_token_def spec_token_post_def OAUTH_URL_def DEFAULT_TIMEOUT_def Let_def
        raise_for_status_def response_json_def example_env_def reply_def json_loads_ex_def
        token_body_def)

end
